theory Spec2Isabelle
  imports Complex_Main
begin

section \<open>Conventions\<close>

text \<open>
  Python values that may be missing are options. A truth test on an optional string
  fails for \<open>None\<close> and for the empty string.
\<close>

definition absent :: "string option \<Rightarrow> bool" where
  "absent v \<longleftrightarrow> (case v of None \<Rightarrow> True | Some s \<Rightarrow> s = [])"

section \<open>Connection registry (src/web/websocket_handler.py)\<close>

text \<open>
  The module keeps two dictionaries: \<open>connections\<close> maps a connection id to the username
  bound to it (\<open>None\<close> until an auth message arrives), \<open>user_connections\<close> maps a username
  to a connection id. A Python truth test on a string holds for the non-empty strings.
\<close>

record registry =
  connections :: "string \<rightharpoonup> string option"
  user_connections :: "string \<rightharpoonup> string"

definition empty_registry :: registry where
  "empty_registry = \<lparr>connections = Map.empty, user_connections = Map.empty\<rparr>"

definition handle_connect :: "string \<Rightarrow> registry \<Rightarrow> nat \<times> registry" where
  "handle_connect connection_id r =
     (200, r\<lparr>connections := (connections r)(connection_id \<mapsto> None)\<rparr>)"

text \<open>
  \<open>connections.get(connection_id)\<close> is \<open>None\<close> both for an unknown id and for a
  connection that never authenticated; the reverse entry of the username is deleted
  whenever the username has one.
\<close>

definition handle_disconnect :: "string \<Rightarrow> registry \<Rightarrow> nat \<times> registry" where
  "handle_disconnect connection_id r =
     (let username = (case connections r connection_id of
                        None \<Rightarrow> None | Some u \<Rightarrow> u);
          r1 = (case username of
                  None \<Rightarrow> r
                | Some u \<Rightarrow>
                    if u \<noteq> [] \<and> user_connections r u \<noteq> None
                    then r\<lparr>user_connections := (user_connections r)(u := None)\<rparr>
                    else r);
          r2 = (if connections r1 connection_id \<noteq> None
                then r1\<lparr>connections := (connections r1)(connection_id := None)\<rparr>
                else r1)
      in (200, r2))"

text \<open>
  The message body is the parsed JSON object (\<open>None\<close> when \<open>json.loads\<close> raises); the
  flag \<open>post_ok\<close> says whether the confirmation sent back on the connection goes
  through. Both dictionaries are written before the confirmation is sent, so a failed
  confirmation answers 500 with the registration in place.
\<close>

definition handle_message ::
  "bool \<Rightarrow> string \<Rightarrow> (string \<rightharpoonup> string) option \<Rightarrow> registry \<Rightarrow> nat \<times> registry" where
  "handle_message post_ok connection_id body r =
     (case body of
        None \<Rightarrow> (500, r)
      | Some b \<Rightarrow>
          if b ''type'' = Some ''auth'' then
            (case b ''username'' of
               None \<Rightarrow> (200, r)
             | Some username \<Rightarrow>
                 if username \<noteq> [] then
                   (let r1 = r\<lparr>connections := (connections r)(connection_id \<mapsto> Some username),
                                user_connections := (user_connections r)(username \<mapsto> connection_id)\<rparr>
                    in if post_ok then (200, r1) else (500, r1))
                 else (200, r))
          else (200, r))"

record ws_event =
  route_key :: string
  connection_id :: string
  body :: "(string \<rightharpoonup> string) option"

definition handler :: "bool \<Rightarrow> ws_event \<Rightarrow> registry \<Rightarrow> nat \<times> registry" where
  "handler post_ok event r =
     (if route_key event = ''$connect'' then handle_connect (connection_id event) r
      else if route_key event = ''$disconnect'' then handle_disconnect (connection_id event) r
      else if route_key event = ''$default''
        then handle_message post_ok (connection_id event) (body event) r
      else (400, r))"

text \<open>
  \<open>send_notification_to_user\<close> reads the reverse index: no entry answers \<open>False\<close>
  without a send, a send that raises deletes the entry. \<open>lookup\<close> is the read it starts
  with.
\<close>

definition lookup :: "registry \<Rightarrow> string \<Rightarrow> string option" where
  "lookup r username = user_connections r username"

definition send_notification_to_user :: "bool \<Rightarrow> string \<Rightarrow> registry \<Rightarrow> bool \<times> registry" where
  "send_notification_to_user post_ok username r =
     (case lookup r username of
        None \<Rightarrow> (False, r)
      | Some cid \<Rightarrow>
          if post_ok then (True, r)
          else (False, r\<lparr>user_connections := (user_connections r)(username := None)\<rparr>))"

definition auth_body :: "string \<Rightarrow> (string \<rightharpoonup> string) option" where
  "auth_body username = Some [''type'' \<mapsto> ''auth'', ''username'' \<mapsto> username]"

subsection \<open>The connection manager of the web front end (src/web/app.py)\<close>

text \<open>
  \<open>ConnectionManager\<close> keeps the open sockets by session id and a username index.
  The websocket endpoint registers the session id as its own username on connect,
  rebinds on an auth message, and calls \<open>disconnect\<close> without a username when the
  socket closes.
\<close>

record manager =
  active_connections :: "string set"
  user_sessions :: "string \<rightharpoonup> string"

definition connect :: "string \<Rightarrow> string \<Rightarrow> manager \<Rightarrow> manager" where
  "connect session_id username m =
     m\<lparr>active_connections := insert session_id (active_connections m),
       user_sessions := (user_sessions m)(username \<mapsto> session_id)\<rparr>"

definition disconnect :: "string \<Rightarrow> string option \<Rightarrow> manager \<Rightarrow> manager" where
  "disconnect session_id username m =
     (let m1 = m\<lparr>active_connections := active_connections m - {session_id}\<rparr>
      in case username of
           None \<Rightarrow> m1
         | Some u \<Rightarrow>
             if u \<noteq> [] \<and> user_sessions m1 u \<noteq> None
             then m1\<lparr>user_sessions := (user_sessions m1)(u := None)\<rparr>
             else m1)"

definition endpoint_open :: "string \<Rightarrow> manager \<Rightarrow> manager" where
  "endpoint_open session_id m = connect session_id session_id m"

definition endpoint_auth :: "string \<Rightarrow> string \<Rightarrow> manager \<Rightarrow> manager" where
  "endpoint_auth session_id username m =
     (if username \<noteq> [] then m\<lparr>user_sessions := (user_sessions m)(username \<mapsto> session_id)\<rparr>
      else m)"

definition endpoint_close :: "string \<Rightarrow> manager \<Rightarrow> manager" where
  "endpoint_close session_id m = disconnect session_id None m"

section \<open>Job poller (src/lambdas/poller/poller.py)\<close>

text \<open>
  The handler polls the run state of a Glue job until it is terminal or a wall-clock
  ceiling is passed. What the outside world does is an input of the model: the outcome
  of the read of loop cycle \<open>i\<close>, the value of \<open>time.time()\<close> at the start and
  at the ceiling check of cycle \<open>i\<close> (seconds, as real numbers), and the preview the
  result harvest yields. A read yields a run state, or raises the \<open>ClientError\<close> of
  the service client, which the loop catches and logs, or raises an exception of any
  other class (a connection failure or a read timeout of the HTTP layer, a response
  without the expected keys), which the loop does not catch: it leaves the handler.
  The sleep between two cycles only moves the clock. A progress update carries the poll
  number and the state; the final result carries the state and the preview. Whether the
  POST of a progress update goes through is logged only, so the model records the
  update as emitted.

  The loop may run forever (a job that stays RUNNING under a clock that never passes
  the ceiling), so it returns an option: \<open>None\<close> is a run that never leaves the loop.
  A run that leaves it either finished the loop (\<open>Finished\<close>) or was ended by an
  exception (\<open>Aborted\<close>, with the text of the exception and the loop state reached).
\<close>

datatype read_outcome = JobRunState string | ClientError string | OtherError string

datatype emitted = Progress nat string | Result string "string option"

record poller_cfg =
  bucketname :: "string option"
  max_poll_hours :: int

record poller_env =
  get_job_run :: "nat \<Rightarrow> read_outcome"
  start_time :: real
  time_at_check :: "nat \<Rightarrow> real"
  harvest :: "string option"

record poller_event =
  job_name :: "string option"
  run_id :: "string option"
  reinvoke_on_success :: bool

record poll_state =
  state :: string
  poll_count :: nat
  emitted :: "emitted list"

datatype 'a step = Break 'a | Continue 'a | Raise string 'a

datatype loop_exit = Finished poll_state | Aborted string poll_state

definition terminal_states :: "string list" where
  "terminal_states = [''SUCCEEDED'', ''FAILED'', ''STOPPED'', ''TIMEOUT'']"

definition exceeded :: "poller_cfg \<Rightarrow> poller_env \<Rightarrow> nat \<Rightarrow> bool" where
  "exceeded cfg env i \<longleftrightarrow>
     (time_at_check env i - start_time env) / 3600 > real_of_int (max_poll_hours cfg)"

definition ceiling_check :: "poller_cfg \<Rightarrow> poller_env \<Rightarrow> nat \<Rightarrow> poll_state \<Rightarrow> poll_state step" where
  "ceiling_check cfg env i s =
     (if exceeded cfg env i then Break (s\<lparr>state := ''TIMEOUT''\<rparr>) else Continue s)"

definition after_read :: "bool \<Rightarrow> string \<Rightarrow> poll_state \<Rightarrow> poll_state" where
  "after_read reinvoke st s =
     (let s1 = s\<lparr>state := st, poll_count := poll_count s + 1\<rparr>
      in if reinvoke \<and> poll_count s1 mod 3 = 0
         then s1\<lparr>emitted := emitted s1 @ [Progress (poll_count s1) st]\<rparr>
         else s1)"

definition poll_cycle ::
  "poller_cfg \<Rightarrow> poller_env \<Rightarrow> bool \<Rightarrow> nat \<Rightarrow> poll_state \<Rightarrow> poll_state step" where
  "poll_cycle cfg env reinvoke i s =
     (case get_job_run env i of
        JobRunState st \<Rightarrow>
          (let s1 = after_read reinvoke st s
           in if st \<in> set terminal_states then Break s1 else ceiling_check cfg env i s1)
      | ClientError msg \<Rightarrow> ceiling_check cfg env i s
      | OtherError msg \<Rightarrow> Raise msg s)"

partial_function (option) poll_loop ::
  "poller_cfg \<Rightarrow> poller_env \<Rightarrow> bool \<Rightarrow> nat \<Rightarrow> poll_state \<Rightarrow> loop_exit option" where
  "poll_loop cfg env reinvoke i s =
     (case poll_cycle cfg env reinvoke i s of
        Break s' \<Rightarrow> Some (Finished s')
      | Continue s' \<Rightarrow> poll_loop cfg env reinvoke (Suc i) s'
      | Raise msg s' \<Rightarrow> Some (Aborted msg s'))"

definition initial_poll_state :: poll_state where
  "initial_poll_state = \<lparr>state = ''RUNNING'', poll_count = 0, emitted = []\<rparr>"

text \<open>
  The handler answers an error object, or the final state; when an exception leaves the
  loop the handler raises it (\<open>Raises\<close>) and sends no final result. The progress
  updates emitted before are part of the outcome in every case.
\<close>

datatype poller_response = Error string | Done string | Raises string

definition poller_handler ::
  "poller_cfg \<Rightarrow> poller_env \<Rightarrow> poller_event \<Rightarrow> (poller_response \<times> emitted list) option" where
  "poller_handler cfg env event =
     (if absent (bucketname cfg) then Some (Error ''BUCKETNAME not configured'', [])
      else if absent (job_name event) \<or> absent (run_id event)
        then Some (Error ''Missing job_name or run_id'', [])
      else
        (case poll_loop cfg env (reinvoke_on_success event) 0 initial_poll_state of
           None \<Rightarrow> None
         | Some (Aborted msg s) \<Rightarrow> Some (Raises msg, emitted s)
         | Some (Finished s) \<Rightarrow>
             (let result_preview = (if state s = ''SUCCEEDED'' then harvest env else None)
              in Some (Done (state s),
                   emitted s @
                   (if reinvoke_on_success event then [Result (state s) result_preview]
                    else [])))))"

text \<open>
  Auxiliary functions for the proofs: what a cycle does to the loop state when the loop
  goes on (\<open>observe\<close>), \<open>n\<close> such cycles from cycle \<open>i\<close> on (\<open>advance\<close>),
  and whether the read of a cycle yields a terminal state, any state at all, or an
  exception the loop does not catch.
\<close>

definition observe :: "poller_env \<Rightarrow> bool \<Rightarrow> nat \<Rightarrow> poll_state \<Rightarrow> poll_state" where
  "observe env reinvoke i s =
     (case get_job_run env i of
        JobRunState st \<Rightarrow> after_read reinvoke st s
      | ClientError msg \<Rightarrow> s
      | OtherError msg \<Rightarrow> s)"

fun advance :: "poller_env \<Rightarrow> bool \<Rightarrow> nat \<Rightarrow> nat \<Rightarrow> poll_state \<Rightarrow> poll_state" where
  "advance env reinvoke i 0 s = s"
| "advance env reinvoke i (Suc n) s = advance env reinvoke (Suc i) n (observe env reinvoke i s)"

definition reads_terminal :: "poller_env \<Rightarrow> nat \<Rightarrow> bool" where
  "reads_terminal env i \<longleftrightarrow>
     (case get_job_run env i of
        JobRunState st \<Rightarrow> st \<in> set terminal_states
      | ClientError msg \<Rightarrow> False
      | OtherError msg \<Rightarrow> False)"

definition read_ok :: "poller_env \<Rightarrow> nat \<Rightarrow> bool" where
  "read_ok env i \<longleftrightarrow>
     (case get_job_run env i of
        JobRunState st \<Rightarrow> True
      | ClientError msg \<Rightarrow> False
      | OtherError msg \<Rightarrow> False)"

definition read_escapes :: "poller_env \<Rightarrow> nat \<Rightarrow> bool" where
  "read_escapes env i \<longleftrightarrow>
     (case get_job_run env i of
        JobRunState st \<Rightarrow> False
      | ClientError msg \<Rightarrow> False
      | OtherError msg \<Rightarrow> True)"

subsection \<open>Sample runs of the poller\<close>

definition default_cfg :: poller_cfg where
  "default_cfg = \<lparr>bucketname = Some ''dq-bucket'', max_poll_hours = 6\<rparr>"

definition flaky_env :: poller_env where
  "flaky_env = \<lparr>get_job_run = (\<lambda>i. if i = 0 then ClientError ''Rate exceeded''
                                    else if i = 5 then OtherError ''Read timed out''
                                    else JobRunState ''RUNNING''),
                start_time = 100,
                time_at_check = (\<lambda>i. if i < 2 then 160 else 21800),
                harvest = None\<rparr>"

definition scripted :: "string list \<Rightarrow> nat \<Rightarrow> read_outcome" where
  "scripted xs i = (if i < length xs then JobRunState (xs ! i)
                    else ClientError ''no further state scripted'')"

definition scripted_env :: poller_env where
  "scripted_env = \<lparr>get_job_run = scripted [''RUNNING'', ''RUNNING'', ''RUNNING'', ''SUCCEEDED''],
                   start_time = 0,
                   time_at_check = (\<lambda>i. 0),
                   harvest = Some ''Row Count: 7''\<rparr>"

definition sample_event :: poller_event where
  "sample_event = \<lparr>job_name = Some ''dq-sql-job'', run_id = Some ''jr_1'',
                    reinvoke_on_success = True\<rparr>"

definition offline_env :: poller_env where
  "offline_env = \<lparr>get_job_run = (\<lambda>i. OtherError ''Could not connect to the endpoint URL''),
                  start_time = 100,
                  time_at_check = (\<lambda>i. 21800 + real i * 60),
                  harvest = None\<rparr>"

section \<open>The agent service (src/ecs/DQ-agent)\<close>

text \<open>
  The service keeps task sessions in an object store (S3), completed job results in a
  process-wide dictionary, and pushes notifications with HTTP POSTs. What the outside
  world does is an input of the model, the record \<open>env\<close>: whether the \<open>n\<close>-th request
  to the object store answers, the outcome of the \<open>n\<close>-th POST (a response with a status
  code, or an exception: connection error, timeout), the \<open>n\<close>-th reading of
  \<open>datetime.utcnow()\<close> (seconds, as a real number) and the functions
  \<open>isoformat\<close>, \<open>fromisoformat\<close> and \<open>str.lower\<close> of the standard library
  (\<open>str_lower\<close>: the case folding of Python, over all of Unicode, is not spelled out
  but taken as it is). The record \<open>world\<close> is
  the state the code reads and writes, with counters for the requests made and a trace
  of the effects in the order the code performs them.

  A dictionary with string values is a map \<open>string \<rightharpoonup> string\<close>. The object stored for a
  task is the JSON of such a dictionary, so the store holds the dictionary itself.
\<close>

type_synonym dict = "string \<rightharpoonup> string"

datatype http_outcome = Status nat | TransportError

datatype agent_input = Text string | GluePrompt dict | JsonDump dict

datatype effect =
    TaskUpdate string string string bool
  | Post string string string
  | Sleep nat
  | AgentCall agent_input

record env =
  s3_up :: "nat \<Rightarrow> bool"
  http :: "nat \<Rightarrow> http_outcome"
  utcnow :: "nat \<Rightarrow> real"
  isoformat :: "real \<Rightarrow> string"
  fromisoformat :: "string \<Rightarrow> real option"
  str_lower :: "string \<Rightarrow> string"
  cache_ttl_hours :: int
  web_app_notify_url :: "string option"

record world =
  store :: "string \<rightharpoonup> dict"
  completed_jobs_cache :: "string \<rightharpoonup> dict"
  s3_reqs :: nat
  posts :: nat
  clock_reads :: nat
  trace :: "effect list"

record user =
  uid :: string
  name :: string

subsection \<open>The outside world: clock, object store, HTTP\<close>

definition read_clock :: "env \<Rightarrow> world \<Rightarrow> real \<times> world" where
  "read_clock env w = (utcnow env (clock_reads w), w\<lparr>clock_reads := Suc (clock_reads w)\<rparr>)"

datatype s3_get = Object dict | NoSuchKey | S3Failure

definition get_object :: "env \<Rightarrow> string \<Rightarrow> world \<Rightarrow> s3_get \<times> world" where
  "get_object env key w =
     ((if s3_up env (s3_reqs w)
       then (case store w key of None \<Rightarrow> NoSuchKey | Some d \<Rightarrow> Object d)
       else S3Failure),
      w\<lparr>s3_reqs := Suc (s3_reqs w)\<rparr>)"

definition put_object :: "env \<Rightarrow> string \<Rightarrow> dict \<Rightarrow> world \<Rightarrow> bool \<times> world" where
  "put_object env key d w =
     (if s3_up env (s3_reqs w)
      then (True, w\<lparr>store := (store w)(key \<mapsto> d), s3_reqs := Suc (s3_reqs w)\<rparr>)
      else (False, w\<lparr>s3_reqs := Suc (s3_reqs w)\<rparr>))"

definition post :: "env \<Rightarrow> string \<Rightarrow> string \<Rightarrow> string \<Rightarrow> world \<Rightarrow> http_outcome \<times> world" where
  "post env url username message w =
     (http env (posts w),
      w\<lparr>posts := Suc (posts w), trace := trace w @ [Post url username message]\<rparr>)"

definition log_effect :: "effect \<Rightarrow> world \<Rightarrow> world" where
  "log_effect e w = w\<lparr>trace := trace w @ [e]\<rparr>"

text \<open>\<open>sub in s\<close> on strings.\<close>

fun contains :: "string \<Rightarrow> string \<Rightarrow> bool" where
  "contains sub [] = (sub = [])"
| "contains sub (c # cs) = (take (length sub) (c # cs) = sub \<or> contains sub cs)"

definition newline :: string where
  "newline = [CHR 0x0A]"

subsection \<open>Task store (web_app.py and app.py: the two files hold the same text)\<close>

definition task_key :: "string \<Rightarrow> string" where
  "task_key task_id = ''tasks/'' @ task_id @ ''/status.json''"

datatype store_error = StoreUnavailable

text \<open>
  \<open>create_task_session\<close>: the task id is the fresh \<open>uuid4\<close>, an input here. A failed
  write is logged and raised again.
\<close>

definition create_task_session ::
  "env \<Rightarrow> string \<Rightarrow> string \<Rightarrow> string \<Rightarrow> string \<Rightarrow> world \<Rightarrow> (store_error + string) \<times> world" where
  "create_task_session env task_id user_id username prompt w =
     (let (t, w1) = read_clock env w;
          session_data = [''task_id'' \<mapsto> task_id,
                          ''user_id'' \<mapsto> user_id,
                          ''username'' \<mapsto> username,
                          ''prompt'' \<mapsto> prompt,
                          ''status'' \<mapsto> ''STARTED'',
                          ''created_at'' \<mapsto> isoformat env t,
                          ''progress'' \<mapsto> ''Initializing agent reasoning...''];
          (ok, w2) = put_object env (task_key task_id) session_data w1
      in if ok then (Inr task_id, w2) else (Inl StoreUnavailable, w2))"

text \<open>
  \<open>update_task_progress\<close>: read, modify, write. Every exception (no such object, a
  failed read, a failed write) is logged and swallowed, and the caller goes on. The
  trace records the call with a flag: whether the new record was written.
\<close>

definition update_task_progress :: "env \<Rightarrow> string \<Rightarrow> string \<Rightarrow> string \<Rightarrow> world \<Rightarrow> world" where
  "update_task_progress env task_id status message w =
     (let (r, w1) = get_object env (task_key task_id) w
      in case r of
           Object session_data \<Rightarrow>
             (let (t, w2) = read_clock env w1;
                  session_data' = session_data(''status'' \<mapsto> status,
                                               ''progress'' \<mapsto> message,
                                               ''updated_at'' \<mapsto> isoformat env t);
                  (ok, w3) = put_object env (task_key task_id) session_data' w2
              in log_effect (TaskUpdate task_id status message ok) w3)
         | NoSuchKey \<Rightarrow> log_effect (TaskUpdate task_id status message False) w1
         | S3Failure \<Rightarrow> log_effect (TaskUpdate task_id status message False) w1)"

text \<open>
  \<open>update_task_progress_from_agent\<close> (agent.py) returns at once without a task id and
  has the body of \<open>update_task_progress\<close> otherwise.
\<close>

definition update_task_progress_from_agent ::
  "env \<Rightarrow> string option \<Rightarrow> string \<Rightarrow> string \<Rightarrow> world \<Rightarrow> world" where
  "update_task_progress_from_agent env task_id status message w =
     (case task_id of
        None \<Rightarrow> w
      | Some t \<Rightarrow> if t = [] then w else update_task_progress env t status message w)"

subsection \<open>Notifications\<close>

text \<open>
  \<open>send_websocket_notification\<close> of web_app.py and app.py: one attempt; no URL answers
  \<open>False\<close> and a localhost URL answers \<open>True\<close>, both without a send.
\<close>

definition send_websocket_notification ::
  "env \<Rightarrow> string \<Rightarrow> string \<Rightarrow> string option \<Rightarrow> world \<Rightarrow> bool \<times> world" where
  "send_websocket_notification env username message websocket_url w =
     (case websocket_url of
        None \<Rightarrow> (False, w)
      | Some url \<Rightarrow>
          if url = [] then (False, w)
          else if contains ''localhost'' url \<or> contains ''127.0.0.1'' url then (True, w)
          else (let (r, w1) = post env url username message w
                in (r = Status 200, w1)))"

text \<open>
  \<open>send_websocket_notification\<close> of agent.py: a missing URL is replaced by the
  configured one; a POST without any URL raises inside \<open>requests\<close>, which is caught.
\<close>

definition agent_send_websocket_notification ::
  "env \<Rightarrow> string \<Rightarrow> string \<Rightarrow> string option \<Rightarrow> world \<Rightarrow> bool \<times> world" where
  "agent_send_websocket_notification env username message websocket_url w =
     (let url = (if absent websocket_url then web_app_notify_url env else websocket_url)
      in case url of
           None \<Rightarrow> (False, w)
         | Some u \<Rightarrow>
             if u = [] then (False, w)
             else (let (r, w1) = post env u username message w
                   in (r = Status 200, w1)))"





fun is_post :: "effect \<Rightarrow> bool" where
  "is_post (Post url username message) = True"
| "is_post e = False"

subsection \<open>Result cache (agent.py)\<close>

text \<open>
  \<open>_completed_jobs_cache\<close> maps the lower-cased username (\<open>username.lower()\<close>) to the
  dictionary of the last completed job. \<open>dict.get(key, default)\<close> is \<open>get_or\<close>.
\<close>

definition get_or :: "dict \<Rightarrow> string \<Rightarrow> string \<Rightarrow> string" where
  "get_or d key dflt = (case d key of None \<Rightarrow> dflt | Some v \<Rightarrow> v)"

definition replace_Z :: "string \<Rightarrow> string" where
  "replace_Z s = concat (map (\<lambda>c. if c = CHR ''Z'' then ''+00:00'' else [c]) s)"

text \<open>
  \<open>is_cache_entry_expired\<close>: no timestamp, or one that \<open>fromisoformat\<close> rejects (the
  exception is caught), counts as expired. \<open>fromisoformat\<close> yields the wall-clock
  reading of the parsed timestamp in seconds: the clock is given the time zone of the
  parsed value before the subtraction, and two values with the same time zone are
  subtracted field by field. The clock is read only once the timestamp is parsed.
\<close>

definition is_cache_entry_expired :: "env \<Rightarrow> dict \<Rightarrow> world \<Rightarrow> bool \<times> world" where
  "is_cache_entry_expired env job_data w =
     (let completion_time_str = get_or job_data ''completion_time'' []
      in if completion_time_str = [] then (True, w)
         else (case fromisoformat env (replace_Z completion_time_str) of
                 None \<Rightarrow> (True, w)
               | Some completion_time \<Rightarrow>
                   (let (now, w1) = read_clock env w;
                        age_seconds = now - completion_time;
                        ttl_seconds = real_of_int (cache_ttl_hours env * 3600)
                    in (age_seconds > ttl_seconds, w1))))"

definition cached_results_text :: "dict \<Rightarrow> string" where
  "cached_results_text job_data =
     newline @ ''CACHED JOB RESULTS AVAILABLE:'' @ newline
     @ ''- Job: '' @ get_or job_data ''job_name'' ''unknown'' @ newline
     @ ''- Status: '' @ get_or job_data ''status'' ''UNKNOWN'' @ newline
     @ ''- Completed: '' @ get_or job_data ''completion_time'' ''unknown'' @ newline
     @ ''- Results: '' @ get_or job_data ''results'' ''No results available'' @ newline"

text \<open>\<open>get_cached_job_results\<close> answers the empty string when it has nothing to offer.\<close>

definition get_cached_job_results :: "env \<Rightarrow> string \<Rightarrow> world \<Rightarrow> string \<times> world" where
  "get_cached_job_results env username w =
     (let user_key = str_lower env username
      in case completed_jobs_cache w user_key of
           Some job_data \<Rightarrow>
             (let (expired, w1) = is_cache_entry_expired env job_data w
              in if expired
                 then ([], w1\<lparr>completed_jobs_cache := (completed_jobs_cache w1)(user_key := None)\<rparr>)
                 else (cached_results_text job_data, w1))
         | None \<Rightarrow> ([], w))"

text \<open>
  The write into the cache is part of \<open>prompt\<close> (the block that builds
  \<open>job_result_data\<close> and assigns \<open>_completed_jobs_cache[user.name.lower()]\<close>).
\<close>

definition store_job_result :: "env \<Rightarrow> user \<Rightarrow> dict \<Rightarrow> string \<Rightarrow> world \<Rightarrow> world" where
  "store_job_result env user original_event response_text w =
     (let (t, w1) = read_clock env w;
          job_result_data = [''type'' \<mapsto> ''completed_glue_job'',
                             ''job_name'' \<mapsto> get_or original_event ''glue_job_name'' ''unknown'',
                             ''run_id'' \<mapsto> get_or original_event ''glue_run_id'' [],
                             ''status'' \<mapsto> get_or original_event ''status'' ''UNKNOWN'',
                             ''completion_time'' \<mapsto> isoformat env t,
                             ''results'' \<mapsto> response_text,
                             ''session_id'' \<mapsto> get_or original_event ''session_id'' []]
      in w1\<lparr>completed_jobs_cache :=
               (completed_jobs_cache w1)(str_lower env (name user) \<mapsto> job_result_data)\<rparr>)"

subsection \<open>The reasoning entry point (agent.py, \<open>prompt\<close>)\<close>

text \<open>
  The reasoning engine and its helpers (session manager, tool clients, the model) are a
  black box. What they do in one call of \<open>prompt\<close> is an input: the engine responds
  with a text; or one of the steps inside the \<open>try\<close> block raises, which \<open>prompt\<close>
  catches and turns into the text "Failed to process request: ..."; or an exception
  leaves \<open>prompt\<close>, which only a statement before its \<open>try\<close> block can cause and
  which is taken to happen before any effect. The text handed to the engine is recorded
  in the trace; for an event of the poller the rendering of the event as a text is not
  modelled (\<open>GluePrompt\<close>, \<open>JsonDump\<close>).
\<close>

datatype composite_prompt = PromptText string | PromptEvent dict

datatype stage = SessionSetup | ToolsInit | AgentCreation | AgentExecution

datatype agent_outcome = Responds string | Fails stage string | Escapes string

definition status_keywords :: "string list" where
  "status_keywords = [''status'', ''done'', ''complete'', ''finished'', ''result'', ''update'']"

definition inject_cached_results ::
  "env \<Rightarrow> user \<Rightarrow> composite_prompt \<Rightarrow> world \<Rightarrow> composite_prompt \<times> world" where
  "inject_cached_results env user cp w =
     (case cp of
        PromptText s \<Rightarrow>
          if list_ex (\<lambda>keyword. contains keyword (str_lower env s)) status_keywords
          then (let (cached_results, w1) = get_cached_job_results env (name user) w
                in if cached_results \<noteq> []
                   then (PromptText (cached_results @ newline @ newline @ ''User Query: '' @ s),
                         w1)
                   else (PromptText s, w1))
          else (PromptText s, w)
      | PromptEvent e \<Rightarrow> (PromptEvent e, w))"

definition agent_progress_messages :: "string list" where
  "agent_progress_messages =
     [''Setting up agent session...'',
      ''Processing your request...'',
      ''Initializing data tools and connections...'',
      ''Creating fresh AI agent with your tools...'',
      ''AI agent is analyzing your request and generating response...'',
      ''Finalizing response...'']"

fun report :: "env \<Rightarrow> string option \<Rightarrow> string list \<Rightarrow> world \<Rightarrow> world" where
  "report env task_id [] w = w"
| "report env task_id (m # ms) w =
     report env task_id ms (update_task_progress_from_agent env task_id ''PROCESSING'' m w)"

fun updates_before :: "stage \<Rightarrow> nat" where
  "updates_before SessionSetup = 1"
| "updates_before ToolsInit = 3"
| "updates_before AgentCreation = 4"
| "updates_before AgentExecution = 5"

definition is_glue_result :: "composite_prompt \<Rightarrow> bool" where
  "is_glue_result cp =
     (case cp of PromptText s \<Rightarrow> False
               | PromptEvent e \<Rightarrow> e ''type'' = Some ''glue_job_result'')"

definition agent_input_of :: "composite_prompt \<Rightarrow> agent_input" where
  "agent_input_of cp =
     (case cp of
        PromptText s \<Rightarrow> Text s
      | PromptEvent e \<Rightarrow>
          if e ''type'' = Some ''glue_job_result'' then GluePrompt e else JsonDump e)"

definition prompt ::
  "env \<Rightarrow> agent_outcome \<Rightarrow> user \<Rightarrow> composite_prompt \<Rightarrow> string option \<Rightarrow> string option
   \<Rightarrow> world \<Rightarrow> (string + string) \<times> world" where
  "prompt env outcome user composite_prompt websocket_url task_id w =
     (case outcome of
        Escapes e \<Rightarrow> (Inl e, w)
      | Fails st e \<Rightarrow>
          (let (cp, w1) = inject_cached_results env user composite_prompt w;
               w2 = report env task_id (take (updates_before st) agent_progress_messages) w1;
               w3 = (if st = AgentExecution
                     then log_effect (AgentCall (agent_input_of cp)) w2 else w2)
           in (Inr (''Failed to process request: '' @ e), w3))
      | Responds response_text \<Rightarrow>
          (let (cp, w1) = inject_cached_results env user composite_prompt w;
               w2 = report env task_id (take 5 agent_progress_messages) w1;
               w3 = log_effect (AgentCall (agent_input_of cp)) w2;
               w4 = report env task_id (drop 5 agent_progress_messages) w3
           in if is_glue_result cp \<and> \<not> absent websocket_url
              then (case cp of
                      PromptEvent original_event \<Rightarrow>
                        (let w5 = store_job_result env user original_event response_text w4;
                             (sent, w6) = agent_send_websocket_notification env (name user)
                                            response_text websocket_url w5
                         in (Inr response_text, w6))
                    | PromptText s \<Rightarrow> (Inr response_text, w4))
              else (Inr response_text, w4)))"

subsection \<open>Background processing (web_app.py, app.py)\<close>

text \<open>
  \<open>process_agent_background\<close> (web_app.py) and \<open>handle_async_agent_processing\<close>
  (app.py) run the same steps; the second one also answers a status code. The prompt
  is a string in both (the composite prompt built by the request handler).
\<close>

definition process_agent_background ::
  "env \<Rightarrow> agent_outcome \<Rightarrow> string \<Rightarrow> user \<Rightarrow> string \<Rightarrow> string option \<Rightarrow> world \<Rightarrow> world" where
  "process_agent_background env outcome task_id user prompt_text websocket_url w =
     (let w1 = update_task_progress env task_id ''PROCESSING''
                 ''Agent is analyzing your request...'' w
      in case prompt env outcome user (PromptText prompt_text) websocket_url (Some task_id) w1 of
           (Inr response_text, w2) \<Rightarrow>
             (let w3 = update_task_progress env task_id ''COMPLETED'' response_text w2;
                  (sent, w4) = send_websocket_notification env (name user) response_text
                                 websocket_url w3
              in w4)
         | (Inl e, w2) \<Rightarrow>
             (let error_message = ''Processing failed: '' @ e;
                  w3 = update_task_progress env task_id ''FAILED'' error_message w2;
                  (sent, w4) = send_websocket_notification env (name user) error_message
                                 websocket_url w3
              in w4))"

record async_event =
  ev_task_id :: string
  ev_user_id :: string
  ev_username :: string
  ev_prompt :: string
  ev_websocket_url :: "string option"

definition handle_async_agent_processing ::
  "env \<Rightarrow> agent_outcome \<Rightarrow> async_event \<Rightarrow> world \<Rightarrow> nat \<times> world" where
  "handle_async_agent_processing env outcome event w =
     (let task_id = ev_task_id event;
          user = \<lparr>uid = ev_user_id event, name = ev_username event\<rparr>;
          websocket_url = ev_websocket_url event;
          w1 = update_task_progress env task_id ''PROCESSING''
                 ''Agent is analyzing your request...'' w
      in case prompt env outcome user (PromptText (ev_prompt event)) websocket_url
                (Some task_id) w1 of
           (Inr response_text, w2) \<Rightarrow>
             (let w3 = update_task_progress env task_id ''COMPLETED'' response_text w2;
                  (sent, w4) = send_websocket_notification env (name user) response_text
                                 websocket_url w3
              in (200, w4))
         | (Inl e, w2) \<Rightarrow>
             (let error_message = ''Processing failed: '' @ e;
                  w3 = update_task_progress env task_id ''FAILED'' error_message w2;
                  (sent, w4) = send_websocket_notification env (name user) error_message
                                 websocket_url w3
              in (500, w4)))"

subsection \<open>Job results from the poller (web_app.py, \<open>handle_glue_result\<close>)\<close>

record glue_event =
  payload :: dict
  user_context :: "dict option"

definition handle_glue_result ::
  "env \<Rightarrow> agent_outcome \<Rightarrow> glue_event \<Rightarrow> world \<Rightarrow> (nat \<times> string) \<times> world" where
  "handle_glue_result env outcome event w =
     (let session_id = get_or (payload event) ''session_id'' ''system-session'';
          context = (case user_context event of None \<Rightarrow> Map.empty | Some c \<Rightarrow> c);
          original_user_id = get_or context ''user_id'' session_id;
          username = get_or context ''username'' ''unknown-user'';
          user = \<lparr>uid = original_user_id, name = username\<rparr>;
          websocket_url = payload event ''websocket_url''
      in case prompt env outcome user (PromptEvent (payload event)) websocket_url None w of
           (Inr response_text, w1) \<Rightarrow> ((200, response_text), w1)
         | (Inl e, w1) \<Rightarrow> ((500, e), w1))"

subsection \<open>Task status endpoint (web_app.py, \<open>get_task_status\<close>)\<close>

text \<open>
  Token validation is outside the model: \<open>jwt_decode\<close> is the outcome of fetching the
  signing key and decoding the token (the claims, or the text of the exception).
  Without a configured key set every bearer token is the test user.
\<close>

record auth_cfg =
  jwks_configured :: bool
  jwt_decode :: "string \<Rightarrow> string + dict"

definition get_user_from_token :: "auth_cfg \<Rightarrow> string option \<Rightarrow> string + user" where
  "get_user_from_token cfg auth_header =
     (case auth_header of
        None \<Rightarrow> Inl ''Invalid authentication token: Missing or invalid Authorization header''
      | Some h \<Rightarrow>
          if h = [] \<or> take 7 h \<noteq> ''Bearer ''
          then Inl ''Invalid authentication token: Missing or invalid Authorization header''
          else if \<not> jwks_configured cfg then Inr \<lparr>uid = ''test-user'', name = ''Test User''\<rparr>
          else (let jwt_token = takeWhile (\<lambda>c. c \<noteq> CHR '' '') (drop 7 h)
                in case jwt_decode cfg jwt_token of
                     Inl e \<Rightarrow> Inl (''Invalid authentication token: '' @ e)
                   | Inr claims \<Rightarrow>
                       (case claims ''sub'' of
                          None \<Rightarrow> Inl (''Invalid authentication token: ''
                                        @ [CHR 0x27] @ ''sub'' @ [CHR 0x27])
                        | Some sub \<Rightarrow>
                            Inr \<lparr>uid = sub, name = get_or claims ''username'' sub\<rparr>)))"

text \<open>
  The answer is a status code and a JSON object. A read that fails for another reason
  than a missing object answers 500 with the text of the exception, for which a fixed
  text stands here.
\<close>

definition get_task_status ::
  "auth_cfg \<Rightarrow> env \<Rightarrow> string option \<Rightarrow> string \<Rightarrow> world \<Rightarrow> (nat \<times> dict) \<times> world" where
  "get_task_status cfg env auth_header task_id w =
     (case get_user_from_token cfg auth_header of
        Inl e \<Rightarrow> ((401, [''error'' \<mapsto> e]), w)
      | Inr user \<Rightarrow>
          (let (r, w1) = get_object env (task_key task_id) w
           in case r of
                Object session_data \<Rightarrow>
                  if session_data ''user_id'' \<noteq> Some (uid user)
                  then ((403, [''error'' \<mapsto> ''Access denied'']), w1)
                  else ((200, session_data), w1)
              | NoSuchKey \<Rightarrow> ((404, [''error'' \<mapsto> ''Task not found'']), w1)
              | S3Failure \<Rightarrow> ((500, [''error'' \<mapsto> ''S3 request failed'']), w1)))"

subsection \<open>Auxiliary notions for the properties of the task store\<close>

text \<open>
  \<open>written\<close>: the read and the write of an update in world \<open>w\<close> both go through (the
  object exists and the store answers both requests). \<open>updates\<close> is a sequence of
  calls of \<open>update_task_progress\<close>. \<open>update_statuses\<close> lists the statuses of the task
  updates of a trace in order. An effect is \<open>quiet\<close> when it is no POST and no sleep,
  and, if it is a task update, one with status PROCESSING.
\<close>

definition written :: "env \<Rightarrow> string \<Rightarrow> world \<Rightarrow> bool" where
  "written env task_id w \<longleftrightarrow>
     s3_up env (s3_reqs w) \<and> store w (task_key task_id) \<noteq> None
     \<and> s3_up env (Suc (s3_reqs w))"

fun updates :: "env \<Rightarrow> (string \<times> string \<times> string) list \<Rightarrow> world \<Rightarrow> world" where
  "updates env [] w = w"
| "updates env ((task_id, status, message) # us) w =
     updates env us (update_task_progress env task_id status message w)"

fun update_statuses :: "effect list \<Rightarrow> string list" where
  "update_statuses [] = []"
| "update_statuses (TaskUpdate task_id status message ok # es) = status # update_statuses es"
| "update_statuses (e # es) = update_statuses es"

fun quiet :: "effect \<Rightarrow> bool" where
  "quiet (TaskUpdate task_id status message ok) = (status = ''PROCESSING'')"
| "quiet (AgentCall i) = True"
| "quiet (Post url username message) = False"
| "quiet (Sleep d) = False"

text \<open>
  \<open>sends\<close>: \<open>send_websocket_notification\<close> issues a POST for this URL.
  \<open>terminal_write\<close>: the status and message of the last task update of the
  background processing, by what the reasoning engine did.
\<close>

definition sends :: "string option \<Rightarrow> bool" where
  "sends websocket_url \<longleftrightarrow>
     (case websocket_url of
        None \<Rightarrow> False
      | Some url \<Rightarrow> url \<noteq> [] \<and> \<not> contains ''localhost'' url \<and> \<not> contains ''127.0.0.1'' url)"

fun terminal_write :: "agent_outcome \<Rightarrow> string \<times> string" where
  "terminal_write (Responds response_text) = (''COMPLETED'', response_text)"
| "terminal_write (Fails st e) = (''COMPLETED'', ''Failed to process request: '' @ e)"
| "terminal_write (Escapes e) = (''FAILED'', ''Processing failed: '' @ e)"

text \<open>\<open>stored_field\<close>: a field of the stored record of a task, if there is one.\<close>

definition stored_field :: "world \<Rightarrow> string \<Rightarrow> string \<Rightarrow> string option" where
  "stored_field w task_id k =
     (case store w (task_key task_id) of None \<Rightarrow> None | Some session_data \<Rightarrow> session_data k)"

text \<open>\<open>event_username\<close>: the username \<open>handle_glue_result\<close> reads from an event.\<close>

definition event_username :: "glue_event \<Rightarrow> string" where
  "event_username event =
     get_or (case user_context event of None \<Rightarrow> Map.empty | Some c \<Rightarrow> c)
       ''username'' ''unknown-user''"

subsection \<open>Sample worlds of the service\<close>

definition idle_world :: world where
  "idle_world = \<lparr>store = Map.empty, completed_jobs_cache = Map.empty, s3_reqs = 0,
                  posts = 0, clock_reads = 0, trace = []\<rparr>"

definition plain_iso :: "real \<Rightarrow> string" where
  "plain_iso t = (if t = 1000 then ''2024-01-01T00:16:40'' else ''2024-01-01T00:00:00'')"

definition plain_parse :: "string \<Rightarrow> real option" where
  "plain_parse s = (if s = ''2024-01-01T00:16:40'' then Some 1000
                    else if s = ''2024-01-01T00:00:00'' then Some 0 else None)"

text \<open>
  Strings are byte strings in UTF-8. \<open>latin_lower\<close> is \<open>str.lower\<close> on the strings
  the sample runs use, those of ASCII characters and of the capital letters of the
  Latin-1 supplement: A to Z go to a to z, and U+00C0 to U+00DE (the bytes C3 80 to
  C3 9E, without the multiplication sign C3 97) go to U+00E0 to U+00FE (C3 A0 to C3 BE).
\<close>

definition lower_char :: "char \<Rightarrow> char" where
  "lower_char c =
     (if 65 \<le> (of_char c :: nat) \<and> (of_char c :: nat) \<le> 90
      then char_of ((of_char c :: nat) + 32) else c)"

fun latin_lower :: "string \<Rightarrow> string" where
  "latin_lower [] = []"
| "latin_lower [c] = [lower_char c]"
| "latin_lower (c # d # cs) =
     (if (of_char c :: nat) = 195 \<and> 128 \<le> (of_char d :: nat) \<and> (of_char d :: nat) \<le> 158
         \<and> (of_char d :: nat) \<noteq> 151
      then c # char_of ((of_char d :: nat) + 32) # latin_lower cs
      else lower_char c # latin_lower (d # cs))"

text \<open>The name "ALICE" with a capital A grave, and the same name in small letters.\<close>

definition capital_alice :: string where
  "capital_alice = [CHR 0xC3, CHR 0x80] @ ''LICE''"

definition small_alice :: string where
  "small_alice = [CHR 0xC3, CHR 0xA0] @ ''lice''"

definition twice_refused :: env where
  "twice_refused = \<lparr>s3_up = (\<lambda>n. True),
                    http = (\<lambda>n. if n = 0 then Status 503 else if n = 1 then TransportError
                                 else Status 200),
                    utcnow = (\<lambda>n. 1000),
                    isoformat = plain_iso,
                    fromisoformat = plain_parse,
                    str_lower = latin_lower,
                    cache_ttl_hours = 24,
                    web_app_notify_url = None\<rparr>"


definition late_env :: env where
  "late_env = twice_refused\<lparr>utcnow := (\<lambda>n. 90000)\<rparr>"

definition sample_job :: dict where
  "sample_job = [''type'' \<mapsto> ''completed_glue_job'', ''job_name'' \<mapsto> ''dq-sql-job'',
                 ''run_id'' \<mapsto> ''jr_1'', ''status'' \<mapsto> ''SUCCEEDED'',
                 ''completion_time'' \<mapsto> ''2024-01-01T00:00:00'',
                 ''results'' \<mapsto> ''7 rows'', ''session_id'' \<mapsto> ''s1'']"

definition undated_job :: dict where
  "undated_job = [''job_name'' \<mapsto> ''dq-sql-job'', ''results'' \<mapsto> ''7 rows'']"

definition cached_world :: world where
  "cached_world = idle_world\<lparr>completed_jobs_cache :=
                     [''alice'' \<mapsto> sample_job, ''bob'' \<mapsto> undated_job]\<rparr>"

definition sample_glue_fields :: dict where
  "sample_glue_fields = [''type'' \<mapsto> ''glue_job_result'', ''session_id'' \<mapsto> ''s2'',
                         ''glue_job_name'' \<mapsto> ''dq-sql-job'', ''glue_run_id'' \<mapsto> ''jr_2'',
                         ''status'' \<mapsto> ''SUCCEEDED'']"

definition sample_auth :: auth_cfg where
  "sample_auth = \<lparr>jwks_configured = True,
                   jwt_decode = (\<lambda>token.
                     if token = ''tok-alice''
                       then Inr [''sub'' \<mapsto> ''u-alice'', ''username'' \<mapsto> ''alice'']
                     else if token = ''tok-bob'' then Inr [''sub'' \<mapsto> ''u-bob'']
                     else Inl ''Not enough segments'')\<rparr>"

definition sample_session :: dict where
  "sample_session = [''task_id'' \<mapsto> ''t1'', ''user_id'' \<mapsto> ''u-alice'',
                     ''username'' \<mapsto> ''alice'', ''prompt'' \<mapsto> ''count the rows'',
                     ''status'' \<mapsto> ''STARTED'', ''created_at'' \<mapsto> ''2024-01-01T00:00:00'',
                     ''progress'' \<mapsto> ''Initializing agent reasoning...'']"

definition task_world :: world where
  "task_world = idle_world\<lparr>store := [task_key ''t1'' \<mapsto> sample_session]\<rparr>"

definition outage_env :: env where
  "outage_env = twice_refused\<lparr>s3_up := (\<lambda>n. n < 14), http := (\<lambda>n. Status 200)\<rparr>"

definition alice :: user where
  "alice = \<lparr>uid = ''u-alice'', name = ''alice''\<rparr>"

definition notify_url :: "string option" where
  "notify_url = Some ''https://web.example/api/notify''"

definition steady_env :: env where
  "steady_env = twice_refused\<lparr>http := (\<lambda>n. Status 200)\<rparr>"

definition silent_event :: glue_event where
  "silent_event = \<lparr>payload = sample_glue_fields,
                    user_context = Some [''user_id'' \<mapsto> ''u-alice'', ''username'' \<mapsto> ''Alice'']\<rparr>"

definition notified_event :: glue_event where
  "notified_event = silent_event\<lparr>payload :=
                      sample_glue_fields(''websocket_url'' \<mapsto> ''https://web.example/api/notify'')\<rparr>"

section \<open>Verified properties\<close>

subsection \<open>Connection registry\<close>


lemma lookup_after_auth:
  "username \<noteq> [] \<Longrightarrow>
   lookup (snd (handle_message ok cid (auth_body username) r)) username = Some cid"
  by (simp add: handle_message_def auth_body_def lookup_def Let_def)

lemma handle_disconnect_lookup:
  "lookup (snd (handle_disconnect cid r)) u
   = (if connections r cid = Some (Some u) \<and> u \<noteq> [] then None else lookup r u)"
  by (auto simp: handle_disconnect_def lookup_def Let_def split: option.splits)

lemma manager_close_keeps_newer_binding:
  "user_sessions (endpoint_close ''A''
      (endpoint_auth ''B'' ''alice'' (endpoint_open ''B''
        (endpoint_auth ''A'' ''alice'' (endpoint_open ''A'' m))))) ''alice'' = Some ''B''"
  by (simp add: endpoint_close_def endpoint_auth_def endpoint_open_def connect_def
      disconnect_def)

text \<open>
  C1. Registering "alice" on channel A and then on channel B makes the lookup of
  "alice" answer B. The disconnect of channel A that follows deletes the reverse entry
  of "alice" although it points at B: \<open>handle_disconnect\<close> tests that the username has
  an entry, not that the entry is the closing connection. Channel B stays bound to
  "alice" in \<open>connections\<close> while the lookup of "alice" finds nothing.
\<close>

theorem registry_disconnect_drops_newer_channel:
  "lookup (snd (handle_message True ''B'' (auth_body ''alice'')
             (snd (handle_message True ''A'' (auth_body ''alice'') empty_registry))))
          ''alice'' = Some ''B''
   \<and> lookup (snd (handle_disconnect ''A''
        (snd (handle_message True ''B'' (auth_body ''alice'')
           (snd (handle_message True ''A'' (auth_body ''alice'') empty_registry))))))
          ''alice'' = None
   \<and> connections (snd (handle_disconnect ''A''
        (snd (handle_message True ''B'' (auth_body ''alice'')
           (snd (handle_message True ''A'' (auth_body ''alice'') empty_registry))))))
          ''B'' = Some (Some ''alice'')"
  by (simp add: handle_message_def handle_disconnect_def auth_body_def lookup_def
      empty_registry_def Let_def)

subsection \<open>Job poller\<close>

lemma poll_cycle_continue:
  "\<not> reads_terminal env i \<Longrightarrow> \<not> read_escapes env i \<Longrightarrow> \<not> exceeded cfg env i \<Longrightarrow>
   poll_cycle cfg env re i s = Continue (observe env re i s)"
  by (auto simp: poll_cycle_def reads_terminal_def read_escapes_def observe_def
      ceiling_check_def Let_def split: read_outcome.splits)

lemma poll_cycle_timeout:
  "\<not> reads_terminal env i \<Longrightarrow> \<not> read_escapes env i \<Longrightarrow> exceeded cfg env i \<Longrightarrow>
   poll_cycle cfg env re i s = Break ((observe env re i s)\<lparr>state := ''TIMEOUT''\<rparr>)"
  by (auto simp: poll_cycle_def reads_terminal_def read_escapes_def observe_def
      ceiling_check_def Let_def split: read_outcome.splits)

lemma poll_loop_break:
  "poll_cycle cfg env re i s = Break s' \<Longrightarrow> poll_loop cfg env re i s = Some (Finished s')"
  by (subst poll_loop.simps) simp

lemma poll_loop_continue:
  "poll_cycle cfg env re i s = Continue s' \<Longrightarrow> j = i + 1 \<Longrightarrow>
   poll_loop cfg env re i s = poll_loop cfg env re j s'"
  by (subst poll_loop.simps) simp

lemma poll_loop_raise:
  "poll_cycle cfg env re i s = Raise msg s' \<Longrightarrow>
   poll_loop cfg env re i s = Some (Aborted msg s')"
  by (subst poll_loop.simps) simp

lemma poll_loop_reaches_ceiling:
  "\<forall>j. i \<le> j \<and> j \<le> i + n \<longrightarrow> \<not> reads_terminal env j \<and> \<not> read_escapes env j \<Longrightarrow>
   \<forall>j. i \<le> j \<and> j < i + n \<longrightarrow> \<not> exceeded cfg env j \<Longrightarrow>
   exceeded cfg env (i + n) \<Longrightarrow>
   poll_loop cfg env re i s
   = Some (Finished ((advance env re i (Suc n) s)\<lparr>state := ''TIMEOUT''\<rparr>))"
proof (induction n arbitrary: i s)
  case 0
  then have "poll_cycle cfg env re i s = Break ((observe env re i s)\<lparr>state := ''TIMEOUT''\<rparr>)"
    by (intro poll_cycle_timeout) auto
  then show ?case
    by (simp add: poll_loop_break)
next
  case (Suc n)
  have step: "poll_cycle cfg env re i s = Continue (observe env re i s)"
    using Suc.prems(1,2) by (intro poll_cycle_continue) auto
  have "poll_loop cfg env re (Suc i) (observe env re i s)
        = Some (Finished ((advance env re (Suc i) (Suc n) (observe env re i s))
                            \<lparr>state := ''TIMEOUT''\<rparr>))"
    using Suc.prems by (intro Suc.IH) auto
  then show ?case
    using poll_loop_continue [OF step, of "Suc i"] by simp
qed

lemma poll_count_observe:
  "poll_count (observe env re i s) = poll_count s + (if read_ok env i then 1 else 0)"
  by (simp add: observe_def read_ok_def after_read_def Let_def split: read_outcome.splits)

lemma poll_count_advance:
  "poll_count (advance env re i n s)
   = poll_count s + length (filter (read_ok env) [i..<i + n])"
proof (induction n arbitrary: i s)
  case 0
  then show ?case by simp
next
  case (Suc n)
  have "[i..<i + Suc n] = i # [Suc i..<Suc i + n]"
    by (simp add: upt_conv_Cons)
  then show ?case
    by (simp add: Suc.IH poll_count_observe)
qed

text \<open>
  C4, as the code has it. Take a run in which no read up to cycle \<open>N\<close> yields a terminal
  state and every read that fails raises the \<open>ClientError\<close> the loop catches (every
  read may fail that way), and in which the ceiling check of cycle \<open>N\<close> is the first to
  see the elapsed time above \<open>MAX_POLL_HOURS\<close>. Then the loop returns, at that check,
  with the state forced to TIMEOUT, and the poll count is the number of reads that
  succeeded. A read that fails with a \<open>ClientError\<close> is a no-op for its cycle: the loop
  state that reaches the ceiling check is the state the cycle started with, so the
  observed state, the poll count and the emitted updates are unchanged. A read that
  raises an exception of another class ends the loop at once, with the loop state as it
  was and no ceiling check.
\<close>

theorem poller_ceiling_forces_timeout:
  assumes never_terminal: "\<forall>j\<le>N. \<not> reads_terminal env j"
    and caught: "\<forall>j\<le>N. \<not> read_escapes env j"
    and below: "\<forall>j<N. \<not> exceeded cfg env j"
    and above: "exceeded cfg env N"
  shows "(\<exists>s. poll_loop cfg env re 0 initial_poll_state = Some (Finished s)
              \<and> state s = ''TIMEOUT''
              \<and> poll_count s = length (filter (read_ok env) [0..<Suc N]))
         \<and> (\<forall>i msg s. get_job_run env i = ClientError msg \<longrightarrow>
               poll_cycle cfg env re i s =
                 (if exceeded cfg env i then Break (s\<lparr>state := ''TIMEOUT''\<rparr>)
                  else Continue s))
         \<and> (\<forall>i msg s. get_job_run env i = OtherError msg \<longrightarrow>
               poll_loop cfg env re i s = Some (Aborted msg s))"
proof (intro conjI)
  have "poll_loop cfg env re 0 initial_poll_state
        = Some (Finished ((advance env re 0 (Suc N) initial_poll_state)\<lparr>state := ''TIMEOUT''\<rparr>))"
    using never_terminal caught below above
    by (intro poll_loop_reaches_ceiling) auto
  moreover have "poll_count (advance env re 0 (Suc N) initial_poll_state)
        = length (filter (read_ok env) [0..<Suc N])"
    using poll_count_advance [of env re 0 "Suc N" initial_poll_state]
    by (simp add: initial_poll_state_def)
  ultimately show "\<exists>s. poll_loop cfg env re 0 initial_poll_state = Some (Finished s)
              \<and> state s = ''TIMEOUT''
              \<and> poll_count s = length (filter (read_ok env) [0..<Suc N])"
    by simp
next
  show "\<forall>i msg s. get_job_run env i = ClientError msg \<longrightarrow>
               poll_cycle cfg env re i s =
                 (if exceeded cfg env i then Break (s\<lparr>state := ''TIMEOUT''\<rparr>)
                  else Continue s)"
    by (simp add: poll_cycle_def ceiling_check_def)
next
  show "\<forall>i msg s. get_job_run env i = OtherError msg \<longrightarrow>
               poll_loop cfg env re i s = Some (Aborted msg s)"
    by (simp add: poll_loop_raise poll_cycle_def)
qed

theorem poller_ceiling_forces_timeout_witness:
  "exceeded default_cfg flaky_env 2
   \<and> (\<exists>s. poll_loop default_cfg flaky_env True 0 initial_poll_state = Some (Finished s)
          \<and> state s = ''TIMEOUT'' \<and> poll_count s = 2)
   \<and> poll_cycle default_cfg flaky_env True 0 initial_poll_state
       = Continue initial_poll_state
   \<and> poll_loop default_cfg flaky_env True 5 initial_poll_state
       = Some (Aborted ''Read timed out'' initial_poll_state)"
proof -
  have h1: "\<forall>j\<le>2. \<not> reads_terminal flaky_env j"
    by (simp add: reads_terminal_def flaky_env_def terminal_states_def)
  have h1': "\<forall>j\<le>2. \<not> read_escapes flaky_env j"
    by (simp add: read_escapes_def flaky_env_def)
  have h2: "\<forall>j<2. \<not> exceeded default_cfg flaky_env j"
    by (simp add: exceeded_def flaky_env_def default_cfg_def)
  have h3: "exceeded default_cfg flaky_env 2"
    by (simp add: exceeded_def flaky_env_def default_cfg_def)
  have n: "length (filter (read_ok flaky_env) [0..<Suc 2]) = 2"
    by code_simp
  have r0: "get_job_run flaky_env 0 = ClientError ''Rate exceeded''"
    by (simp add: flaky_env_def)
  have r5: "get_job_run flaky_env 5 = OtherError ''Read timed out''"
    by (simp add: flaky_env_def)
  have b0: "\<not> exceeded default_cfg flaky_env 0"
    using h2 by simp
  from poller_ceiling_forces_timeout [OF h1 h1' h2 h3, of True] n h3 r0 r5 b0
  show ?thesis by simp
qed

text \<open>
  The reading of the specification that takes every failed read for a no-op fails for
  a read that raises an exception the loop does not catch: with the service
  unreachable the first read ends the handler, although the clock is past the ceiling.
  The loop state is still RUNNING, no TIMEOUT is forced and no final result is sent.
\<close>

theorem poller_uncaught_read_failure:
  "exceeded default_cfg offline_env 0
   \<and> poll_loop default_cfg offline_env True 0 initial_poll_state
     = Some (Aborted ''Could not connect to the endpoint URL''
               \<lparr>state = ''RUNNING'', poll_count = 0, emitted = []\<rparr>)
   \<and> poller_handler default_cfg offline_env sample_event
     = Some (Raises ''Could not connect to the endpoint URL'', [])"
proof -
  have c: "poll_cycle default_cfg offline_env True 0 initial_poll_state
           = Raise ''Could not connect to the endpoint URL'' initial_poll_state"
    by (simp add: poll_cycle_def offline_env_def)
  have l: "poll_loop default_cfg offline_env True 0 initial_poll_state
           = Some (Aborted ''Could not connect to the endpoint URL'' initial_poll_state)"
    by (rule poll_loop_raise [OF c])
  have x: "exceeded default_cfg offline_env 0"
    by (simp add: exceeded_def offline_env_def default_cfg_def)
  show ?thesis
    using l x
    by (simp add: poller_handler_def default_cfg_def sample_event_def absent_def
        initial_poll_state_def)
qed

text \<open>
  C6. With the reads scripted as RUNNING, RUNNING, RUNNING, SUCCEEDED, progress updates
  requested (\<open>reinvoke_on_success\<close>, the default) and the ceiling not passed during the
  first three cycles, the loop emits one progress update, on poll 3 (the only poll
  count up to 4 that is a multiple of 3), and leaves at the fourth read, which observes
  SUCCEEDED: the poll count stays 4. The handler then emits the final result, so the
  progress update is the only one before it.
\<close>

theorem poller_cadence:
  assumes script: "get_job_run env 0 = JobRunState ''RUNNING''"
      "get_job_run env 1 = JobRunState ''RUNNING''"
      "get_job_run env 2 = JobRunState ''RUNNING''"
      "get_job_run env 3 = JobRunState ''SUCCEEDED''"
    and below: "\<not> exceeded cfg env 0" "\<not> exceeded cfg env 1" "\<not> exceeded cfg env 2"
    and configured: "\<not> absent (bucketname cfg)" "\<not> absent (job_name event)"
      "\<not> absent (run_id event)"
    and reinvoke: "reinvoke_on_success event"
  shows "poll_loop cfg env True 0 initial_poll_state
           = Some (Finished \<lparr>state = ''SUCCEEDED'', poll_count = 4,
                             emitted = [Progress 3 ''RUNNING'']\<rparr>)
         \<and> poller_handler cfg env event
           = Some (Done ''SUCCEEDED'',
                   [Progress 3 ''RUNNING'', Result ''SUCCEEDED'' (harvest env)])"
proof -
  let ?s1 = "\<lparr>state = ''RUNNING'', poll_count = 1, emitted = []\<rparr>"
  let ?s2 = "\<lparr>state = ''RUNNING'', poll_count = 2, emitted = []\<rparr>"
  let ?s3 = "\<lparr>state = ''RUNNING'', poll_count = 3, emitted = [Progress 3 ''RUNNING'']\<rparr>"
  let ?s4 = "\<lparr>state = ''SUCCEEDED'', poll_count = 4, emitted = [Progress 3 ''RUNNING'']\<rparr>"
  have c0: "poll_cycle cfg env True 0 initial_poll_state = Continue ?s1"
    using script(1) below(1)
    by (simp add: poll_cycle_def after_read_def ceiling_check_def terminal_states_def
        initial_poll_state_def)
  have c1: "poll_cycle cfg env True 1 ?s1 = Continue ?s2"
    using script(2) below(2)
    by (simp add: poll_cycle_def after_read_def ceiling_check_def terminal_states_def)
  have c2: "poll_cycle cfg env True 2 ?s2 = Continue ?s3"
    using script(3) below(3)
    by (simp add: poll_cycle_def after_read_def ceiling_check_def terminal_states_def)
  have c3: "poll_cycle cfg env True 3 ?s3 = Break ?s4"
    using script(4)
    by (simp add: poll_cycle_def after_read_def terminal_states_def)
  have l3: "poll_loop cfg env True 3 ?s3 = Some (Finished ?s4)"
    by (rule poll_loop_break [OF c3])
  have l2: "poll_loop cfg env True 2 ?s2 = Some (Finished ?s4)"
    using poll_loop_continue [OF c2, of 3] l3 by simp
  have l1: "poll_loop cfg env True 1 ?s1 = Some (Finished ?s4)"
    using poll_loop_continue [OF c1, of 2] l2 by simp
  have l0: "poll_loop cfg env True 0 initial_poll_state = Some (Finished ?s4)"
    using poll_loop_continue [OF c0, of 1] l1 by simp
  show ?thesis
    using l0 configured reinvoke by (simp add: poller_handler_def)
qed

theorem poller_cadence_witness:
  "poller_handler default_cfg scripted_env sample_event
     = Some (Done ''SUCCEEDED'',
             [Progress 3 ''RUNNING'', Result ''SUCCEEDED'' (Some ''Row Count: 7'')])"
proof -
  have "poll_loop default_cfg scripted_env True 0 initial_poll_state
           = Some (Finished \<lparr>state = ''SUCCEEDED'', poll_count = 4,
                             emitted = [Progress 3 ''RUNNING'']\<rparr>)
         \<and> poller_handler default_cfg scripted_env sample_event
           = Some (Done ''SUCCEEDED'',
                   [Progress 3 ''RUNNING'', Result ''SUCCEEDED'' (harvest scripted_env)])"
    by (rule poller_cadence)
      (simp_all add: scripted_env_def scripted_def exceeded_def default_cfg_def
        sample_event_def absent_def)
  then show ?thesis by (simp add: scripted_env_def)
qed

subsection \<open>Notification with retries\<close>


lemma log_effect_fields:
  "posts (log_effect e w) = posts w"
  "store (log_effect e w) = store w"
  "completed_jobs_cache (log_effect e w) = completed_jobs_cache w"
  "s3_reqs (log_effect e w) = s3_reqs w"
  "clock_reads (log_effect e w) = clock_reads w"
  "trace (log_effect e w) = trace w @ [e]"
  by (simp_all add: log_effect_def)








lemma single_attempt_notification:
  "sends websocket_url \<Longrightarrow>
   send_websocket_notification env username message websocket_url w
   = (http env (posts w) = Status 200,
      w\<lparr>posts := Suc (posts w),
        trace := trace w @ [Post (the websocket_url) username message]\<rparr>)"
  "contains ''localhost'' url \<Longrightarrow> url \<noteq> [] \<Longrightarrow>
   send_websocket_notification env username message (Some url) w = (True, w)"
  "absent websocket_url \<Longrightarrow>
   send_websocket_notification env username message websocket_url w = (False, w)"
  by (auto simp: send_websocket_notification_def sends_def absent_def post_def
      split: option.splits)



subsection \<open>Result cache\<close>

lemma read_clock_fields:
  "fst (read_clock env w) = utcnow env (clock_reads w)"
  "completed_jobs_cache (snd (read_clock env w)) = completed_jobs_cache w"
  "store (snd (read_clock env w)) = store w"
  "trace (snd (read_clock env w)) = trace w"
  "posts (snd (read_clock env w)) = posts w"
  "s3_reqs (snd (read_clock env w)) = s3_reqs w"
  "clock_reads (snd (read_clock env w)) = Suc (clock_reads w)"
  by (simp_all add: read_clock_def)

lemma expired_without_timestamp:
  "get_or jd ''completion_time'' [] = []
   \<or> fromisoformat env (replace_Z (get_or jd ''completion_time'' [])) = None \<Longrightarrow>
   is_cache_entry_expired env jd w = (True, w)"
  by (auto simp: is_cache_entry_expired_def Let_def)

lemma expired_by_age:
  "get_or jd ''completion_time'' [] \<noteq> [] \<Longrightarrow>
   fromisoformat env (replace_Z (get_or jd ''completion_time'' [])) = Some ct \<Longrightarrow>
   is_cache_entry_expired env jd w
   = (utcnow env (clock_reads w) - ct > real_of_int (cache_ttl_hours env * 3600),
      snd (read_clock env w))"
  by (simp add: is_cache_entry_expired_def Let_def read_clock_def)

lemma cached_results_text_nonempty: "cached_results_text jd \<noteq> []"
  by (simp add: cached_results_text_def newline_def)

lemma cache_read_checks_ttl_general:
  assumes "completed_jobs_cache w (str_lower env username) = Some jd"
  shows "get_or jd ''completion_time'' [] \<noteq> [] \<Longrightarrow>
         fromisoformat env (replace_Z (get_or jd ''completion_time'' [])) = Some ct \<Longrightarrow>
         \<not> utcnow env (clock_reads w) - ct > real_of_int (cache_ttl_hours env * 3600) \<Longrightarrow>
         fst (get_cached_job_results env username w) = cached_results_text jd
         \<and> completed_jobs_cache (snd (get_cached_job_results env username w))
             = completed_jobs_cache w"
  using assms
  by (simp add: get_cached_job_results_def expired_by_age read_clock_fields)

text \<open>
  C2. A read of the cache for a username looks the lower-cased name up. With no entry
  it answers the empty string and changes nothing. With an entry it checks the age
  first: an entry without a completion timestamp, or with one that cannot be parsed, is
  deleted and the read answers the empty string; an entry whose age (clock reading
  minus completion time) is above \<open>CACHE_TTL_HOURS\<close> hours is deleted and the read
  answers the empty string; any other entry is kept and the read answers the text built
  from it, which is never empty.
\<close>

theorem cache_read_checks_ttl:
  "(completed_jobs_cache w (str_lower env username) = None \<longrightarrow>
      get_cached_job_results env username w = ([], w))
   \<and> (completed_jobs_cache w (str_lower env username) = Some jd \<longrightarrow>
        (get_or jd ''completion_time'' [] = []
           \<or> fromisoformat env (replace_Z (get_or jd ''completion_time'' [])) = None \<longrightarrow>
         fst (get_cached_job_results env username w) = []
         \<and> completed_jobs_cache (snd (get_cached_job_results env username w))
             = (completed_jobs_cache w)(str_lower env username := None))
      \<and> (get_or jd ''completion_time'' [] \<noteq> []
           \<and> fromisoformat env (replace_Z (get_or jd ''completion_time'' [])) = Some ct \<longrightarrow>
         (utcnow env (clock_reads w) - ct > real_of_int (cache_ttl_hours env * 3600) \<longrightarrow>
            fst (get_cached_job_results env username w) = []
            \<and> completed_jobs_cache (snd (get_cached_job_results env username w))
                = (completed_jobs_cache w)(str_lower env username := None))
         \<and> (\<not> utcnow env (clock_reads w) - ct > real_of_int (cache_ttl_hours env * 3600) \<longrightarrow>
            fst (get_cached_job_results env username w) = cached_results_text jd
            \<and> cached_results_text jd \<noteq> []
            \<and> completed_jobs_cache (snd (get_cached_job_results env username w))
                = completed_jobs_cache w)))"
proof (intro conjI impI)
  assume "completed_jobs_cache w (str_lower env username) = None"
  then show "get_cached_job_results env username w = ([], w)"
    by (simp add: get_cached_job_results_def)
next
  assume e: "completed_jobs_cache w (str_lower env username) = Some jd"
    and t: "get_or jd ''completion_time'' [] = []
           \<or> fromisoformat env (replace_Z (get_or jd ''completion_time'' [])) = None"
  have x: "is_cache_entry_expired env jd w = (True, w)"
    using t by (rule expired_without_timestamp)
  show "fst (get_cached_job_results env username w) = []"
    using e x by (simp add: get_cached_job_results_def)
  show "completed_jobs_cache (snd (get_cached_job_results env username w))
             = (completed_jobs_cache w)(str_lower env username := None)"
    using e x by (simp add: get_cached_job_results_def)
next
  assume e: "completed_jobs_cache w (str_lower env username) = Some jd"
    and t: "get_or jd ''completion_time'' [] \<noteq> []
           \<and> fromisoformat env (replace_Z (get_or jd ''completion_time'' [])) = Some ct"
    and old: "utcnow env (clock_reads w) - ct > real_of_int (cache_ttl_hours env * 3600)"
  have x: "is_cache_entry_expired env jd w = (True, snd (read_clock env w))"
    using t old by (simp add: expired_by_age)
  show "fst (get_cached_job_results env username w) = []"
    using e x by (simp add: get_cached_job_results_def)
  show "completed_jobs_cache (snd (get_cached_job_results env username w))
             = (completed_jobs_cache w)(str_lower env username := None)"
    using e x by (simp add: get_cached_job_results_def read_clock_fields)
next
  assume e: "completed_jobs_cache w (str_lower env username) = Some jd"
    and t: "get_or jd ''completion_time'' [] \<noteq> []
           \<and> fromisoformat env (replace_Z (get_or jd ''completion_time'' [])) = Some ct"
    and young: "\<not> utcnow env (clock_reads w) - ct > real_of_int (cache_ttl_hours env * 3600)"
  have x: "is_cache_entry_expired env jd w = (False, snd (read_clock env w))"
    using t young by (simp add: expired_by_age)
  show "fst (get_cached_job_results env username w) = cached_results_text jd"
    using e x by (simp add: get_cached_job_results_def)
  show "cached_results_text jd \<noteq> []"
    by (rule cached_results_text_nonempty)
  show "completed_jobs_cache (snd (get_cached_job_results env username w))
             = completed_jobs_cache w"
    using e x by (simp add: get_cached_job_results_def read_clock_fields)
qed

declare latin_lower.simps [simp del]

lemma lower_samples:
  "latin_lower ''Alice'' = ''alice''" "latin_lower ''ALICE'' = ''alice''"
  "latin_lower ''alice'' = ''alice''" "latin_lower ''Bob'' = ''bob''"
  "latin_lower ''carol'' = ''carol''"
  "latin_lower capital_alice = small_alice" "latin_lower small_alice = small_alice"
  by code_simp+

lemma sample_job_timestamp:
  "get_or sample_job ''completion_time'' [] = ''2024-01-01T00:00:00''"
  "replace_Z ''2024-01-01T00:00:00'' = ''2024-01-01T00:00:00''"
  "get_or undated_job ''completion_time'' [] = []"
  by (simp_all add: sample_job_def undated_job_def get_or_def replace_Z_def)

lemma sample_envs:
  "fromisoformat twice_refused = plain_parse" "fromisoformat late_env = plain_parse"
  "utcnow twice_refused n = 1000" "utcnow late_env n = 90000"
  "cache_ttl_hours twice_refused = 24" "cache_ttl_hours late_env = 24"
  "isoformat twice_refused = plain_iso"
  "str_lower twice_refused = latin_lower" "str_lower late_env = latin_lower"
  by (simp_all add: twice_refused_def late_env_def)

lemma cached_world_entries:
  "completed_jobs_cache cached_world ''alice'' = Some sample_job"
  "completed_jobs_cache cached_world ''bob'' = Some undated_job"
  "completed_jobs_cache cached_world ''carol'' = None"
  by (simp_all add: cached_world_def idle_world_def)

theorem cache_read_checks_ttl_witness:
  "fst (get_cached_job_results twice_refused ''Alice'' cached_world)
     = cached_results_text sample_job
   \<and> fst (get_cached_job_results late_env ''Alice'' cached_world) = []
   \<and> completed_jobs_cache (snd (get_cached_job_results late_env ''Alice'' cached_world))
        ''alice'' = None
   \<and> fst (get_cached_job_results twice_refused ''Bob'' cached_world) = []
   \<and> completed_jobs_cache (snd (get_cached_job_results twice_refused ''Bob'' cached_world))
        ''bob'' = None
   \<and> get_cached_job_results twice_refused ''carol'' cached_world = ([], cached_world)"
proof -
  have parse: "plain_parse ''2024-01-01T00:00:00'' = Some 0"
    by (simp add: plain_parse_def)
  have young: "fst (get_cached_job_results twice_refused ''Alice'' cached_world)
     = cached_results_text sample_job"
    using cache_read_checks_ttl [where w = cached_world and username = "''Alice''"
        and env = twice_refused and jd = sample_job and ct = 0]
    by (simp add: lower_samples cached_world_entries sample_job_timestamp sample_envs parse)
  have old: "fst (get_cached_job_results late_env ''Alice'' cached_world) = []
     \<and> completed_jobs_cache (snd (get_cached_job_results late_env ''Alice'' cached_world))
        = (completed_jobs_cache cached_world)(''alice'' := None)"
    using cache_read_checks_ttl [where w = cached_world and username = "''Alice''"
        and env = late_env and jd = sample_job and ct = 0]
    by (simp add: lower_samples cached_world_entries sample_job_timestamp sample_envs parse)
  have undated: "fst (get_cached_job_results twice_refused ''Bob'' cached_world) = []
     \<and> completed_jobs_cache (snd (get_cached_job_results twice_refused ''Bob'' cached_world))
        = (completed_jobs_cache cached_world)(''bob'' := None)"
    using cache_read_checks_ttl [where w = cached_world and username = "''Bob''"
        and env = twice_refused and jd = undated_job and ct = 0]
    by (simp add: lower_samples cached_world_entries sample_job_timestamp sample_envs)
  have nobody: "get_cached_job_results twice_refused ''carol'' cached_world = ([], cached_world)"
    using cache_read_checks_ttl [where w = cached_world and username = "''carol''"
        and env = twice_refused and jd = sample_job and ct = 0]
    by (simp add: lower_samples cached_world_entries sample_envs)
  show ?thesis
    using young old undated nobody by simp
qed

lemma store_job_result_cache:
  "completed_jobs_cache (store_job_result env u ev text w)
   = (completed_jobs_cache w)(str_lower env (name u) \<mapsto>
       [''type'' \<mapsto> ''completed_glue_job'',
        ''job_name'' \<mapsto> get_or ev ''glue_job_name'' ''unknown'',
        ''run_id'' \<mapsto> get_or ev ''glue_run_id'' [],
        ''status'' \<mapsto> get_or ev ''status'' ''UNKNOWN'',
        ''completion_time'' \<mapsto> isoformat env (utcnow env (clock_reads w)),
        ''results'' \<mapsto> text,
        ''session_id'' \<mapsto> get_or ev ''session_id'' []])"
  by (simp add: store_job_result_def read_clock_def Let_def)



subsection \<open>Task status endpoint\<close>

text \<open>
  C10. For an authenticated requester the endpoint answers 200 only with the stored
  record of the task and only when the \<open>user_id\<close> of the record is the requester's id.
  When the store answers the read: the owner gets 200 and the record, any other
  authenticated user gets 403 with the fixed object \<open>{"error": "Access denied"}\<close>, and a
  task id without a stored record gets 404. Every answer other than 200 carries one of
  three fixed error objects, none of which is built from a record. The endpoint does
  not write the store.
\<close>

theorem task_status_enforces_ownership:
  assumes authenticated: "get_user_from_token cfg auth_header = Inr requester"
  shows "(fst (fst (get_task_status cfg env auth_header task_id w)) = 200 \<longrightarrow>
            store w (task_key task_id) = Some (snd (fst (get_task_status cfg env auth_header task_id w)))
            \<and> snd (fst (get_task_status cfg env auth_header task_id w)) ''user_id''
                = Some (uid requester))
         \<and> (fst (fst (get_task_status cfg env auth_header task_id w)) \<noteq> 200 \<longrightarrow>
              snd (fst (get_task_status cfg env auth_header task_id w)) = [''error'' \<mapsto> ''Access denied'']
              \<or> snd (fst (get_task_status cfg env auth_header task_id w)) = [''error'' \<mapsto> ''Task not found'']
              \<or> snd (fst (get_task_status cfg env auth_header task_id w)) = [''error'' \<mapsto> ''S3 request failed''])
         \<and> (s3_up env (s3_reqs w) \<and> store w (task_key task_id) = Some session_data \<longrightarrow>
              (session_data ''user_id'' = Some (uid requester) \<longrightarrow>
                 fst (get_task_status cfg env auth_header task_id w) = (200, session_data))
              \<and> (session_data ''user_id'' \<noteq> Some (uid requester) \<longrightarrow>
                 fst (get_task_status cfg env auth_header task_id w)
                   = (403, [''error'' \<mapsto> ''Access denied''])))
         \<and> (s3_up env (s3_reqs w) \<and> store w (task_key task_id) = None \<longrightarrow>
              fst (get_task_status cfg env auth_header task_id w)
                = (404, [''error'' \<mapsto> ''Task not found'']))
         \<and> store (snd (get_task_status cfg env auth_header task_id w)) = store w"
  using authenticated
  by (cases "store w (task_key task_id)")
     (simp_all add: get_task_status_def get_object_def)

lemma sample_tokens:
  "get_user_from_token sample_auth (Some ''Bearer tok-alice'')
     = Inr \<lparr>uid = ''u-alice'', name = ''alice''\<rparr>"
  "get_user_from_token sample_auth (Some ''Bearer tok-bob'')
     = Inr \<lparr>uid = ''u-bob'', name = ''u-bob''\<rparr>"
  by (simp_all add: get_user_from_token_def sample_auth_def get_or_def)

lemma task_world_store:
  "store task_world (task_key ''t1'') = Some sample_session"
  "store task_world (task_key ''t2'') = None"
  "s3_reqs task_world = 0"
  by (simp_all add: task_world_def idle_world_def task_key_def)

theorem task_status_enforces_ownership_witness:
  "fst (get_task_status sample_auth twice_refused (Some ''Bearer tok-alice'') ''t1'' task_world)
     = (200, sample_session)
   \<and> fst (get_task_status sample_auth twice_refused (Some ''Bearer tok-bob'') ''t1'' task_world)
     = (403, [''error'' \<mapsto> ''Access denied''])
   \<and> fst (get_task_status sample_auth twice_refused (Some ''Bearer tok-bob'') ''t2'' task_world)
     = (404, [''error'' \<mapsto> ''Task not found''])"
proof -
  have up: "s3_up twice_refused (s3_reqs task_world)"
    by (simp add: twice_refused_def)
  have owner: "sample_session ''user_id'' = Some ''u-alice''"
    by (simp add: sample_session_def)
  have a: "fst (get_task_status sample_auth twice_refused (Some ''Bearer tok-alice'') ''t1''
             task_world) = (200, sample_session)"
    using task_status_enforces_ownership [OF sample_tokens(1), of twice_refused "''t1''"
        task_world sample_session] up owner task_world_store(1)
    by simp
  have b: "fst (get_task_status sample_auth twice_refused (Some ''Bearer tok-bob'') ''t1''
             task_world) = (403, [''error'' \<mapsto> ''Access denied''])"
    using task_status_enforces_ownership [OF sample_tokens(2), of twice_refused "''t1''"
        task_world sample_session] up owner task_world_store(1)
    by simp
  have c: "fst (get_task_status sample_auth twice_refused (Some ''Bearer tok-bob'') ''t2''
             task_world) = (404, [''error'' \<mapsto> ''Task not found''])"
    using task_status_enforces_ownership [OF sample_tokens(2), of twice_refused "''t2''"
        task_world sample_session] up task_world_store(2)
    by simp
  show ?thesis
    using a b c by simp
qed

subsection \<open>Task store\<close>

lemma task_key_inject: "task_key a = task_key b \<longleftrightarrow> a = b"
  by (simp add: task_key_def)

lemma update_task_progress_unfold:
  "update_task_progress env task_id status message w =
     (if written env task_id w
      then w\<lparr>store := (store w)(task_key task_id \<mapsto>
                 (the (store w (task_key task_id)))
                   (''status'' \<mapsto> status, ''progress'' \<mapsto> message,
                    ''updated_at'' \<mapsto> isoformat env (utcnow env (clock_reads w)))),
              s3_reqs := Suc (Suc (s3_reqs w)),
              clock_reads := Suc (clock_reads w),
              trace := trace w @ [TaskUpdate task_id status message True]\<rparr>
      else w\<lparr>s3_reqs := (if s3_up env (s3_reqs w) \<and> store w (task_key task_id) \<noteq> None
                           then Suc (Suc (s3_reqs w)) else Suc (s3_reqs w)),
              clock_reads := (if s3_up env (s3_reqs w) \<and> store w (task_key task_id) \<noteq> None
                              then Suc (clock_reads w) else clock_reads w),
              trace := trace w @ [TaskUpdate task_id status message False]\<rparr>)"
  by (cases "store w (task_key task_id)")
     (simp_all add: update_task_progress_def written_def get_object_def put_object_def
       read_clock_def log_effect_def Let_def)

lemma update_task_progress_trace:
  "trace (update_task_progress env task_id status message w)
   = trace w @ [TaskUpdate task_id status message (written env task_id w)]"
  by (simp add: update_task_progress_unfold)

lemma update_task_progress_frame:
  "posts (update_task_progress env task_id status message w) = posts w"
  "completed_jobs_cache (update_task_progress env task_id status message w)
   = completed_jobs_cache w"
  by (simp_all add: update_task_progress_unfold)

lemma update_task_progress_store:
  "store (update_task_progress env task_id status message w) =
     (if written env task_id w
      then (store w)(task_key task_id \<mapsto>
              (the (store w (task_key task_id)))
                (''status'' \<mapsto> status, ''progress'' \<mapsto> message,
                 ''updated_at'' \<mapsto> isoformat env (utcnow env (clock_reads w))))
      else store w)"
  by (simp add: update_task_progress_unfold)

lemma update_task_progress_keeps_objects:
  "store (update_task_progress env task_id status message w) key = None
   \<longleftrightarrow> store w key = None"
  by (simp add: update_task_progress_store written_def)

lemma update_task_progress_keeps_fields:
  assumes "store w key = Some sd" "k \<noteq> ''status''" "k \<noteq> ''progress''" "k \<noteq> ''updated_at''"
  shows "\<exists>sd'. store (update_task_progress env task_id status message w) key = Some sd'
               \<and> sd' k = sd k"
  using assms by (auto simp: update_task_progress_store)

lemma updates_keep_fields:
  assumes "k \<noteq> ''status''" "k \<noteq> ''progress''" "k \<noteq> ''updated_at''"
  shows "store w key = Some sd \<Longrightarrow>
         \<exists>sd'. store (updates env us w) key = Some sd' \<and> sd' k = sd k"
proof (induction us arbitrary: w sd)
  case Nil
  then show ?case by simp
next
  case (Cons u us)
  obtain task_id status message where u: "u = (task_id, status, message)"
    by (cases u)
  obtain sd1 where s1: "store (update_task_progress env task_id status message w) key = Some sd1"
    and k1: "sd1 k = sd k"
    using update_task_progress_keeps_fields [OF Cons.prems assms] by blast
  obtain sd' where "store (updates env us (update_task_progress env task_id status message w)) key
      = Some sd'" and "sd' k = sd1 k"
    using Cons.IH [OF s1] by blast
  then show ?case
    using u k1 by simp
qed

lemma updates_keep_objects:
  "store (updates env us w) key = None \<longleftrightarrow> store w key = None"
proof (induction us arbitrary: w)
  case Nil
  then show ?case by simp
next
  case (Cons u us)
  obtain task_id status message where u: "u = (task_id, status, message)"
    by (cases u)
  show ?case
    by (simp add: u Cons.IH update_task_progress_keeps_objects)
qed

lemma create_task_session_store:
  assumes "create_task_session env task_id user_id username prompt_text w = (Inr t, w1)"
  shows "t = task_id
         \<and> store w1 (task_key task_id)
           = Some [''task_id'' \<mapsto> task_id, ''user_id'' \<mapsto> user_id,
                   ''username'' \<mapsto> username, ''prompt'' \<mapsto> prompt_text,
                   ''status'' \<mapsto> ''STARTED'',
                   ''created_at'' \<mapsto> isoformat env (utcnow env (clock_reads w)),
                   ''progress'' \<mapsto> ''Initializing agent reasoning...'']"
  using assms
  by (auto simp: create_task_session_def read_clock_def put_object_def Let_def
      split: if_splits)

subsection \<open>Background processing\<close>

lemma update_from_agent_none: "update_task_progress_from_agent env None status message w = w"
  by (simp add: update_task_progress_from_agent_def)

lemma report_none: "report env None ms w = w"
  by (induction ms arbitrary: w) (simp_all add: update_from_agent_none)

lemma update_from_agent_effects:
  "(\<exists>tr. trace (update_task_progress_from_agent env task_id ''PROCESSING'' m w) = trace w @ tr
         \<and> list_all quiet tr)
   \<and> posts (update_task_progress_from_agent env task_id ''PROCESSING'' m w) = posts w
   \<and> completed_jobs_cache (update_task_progress_from_agent env task_id ''PROCESSING'' m w)
       = completed_jobs_cache w
   \<and> (store (update_task_progress_from_agent env task_id ''PROCESSING'' m w) key = None
        \<longleftrightarrow> store w key = None)"
  by (simp add: update_task_progress_from_agent_def update_task_progress_trace
      update_task_progress_frame update_task_progress_keeps_objects split: option.splits)

lemma report_effects:
  "(\<exists>tr. trace (report env task_id ms w) = trace w @ tr \<and> list_all quiet tr)
   \<and> posts (report env task_id ms w) = posts w
   \<and> completed_jobs_cache (report env task_id ms w) = completed_jobs_cache w
   \<and> (store (report env task_id ms w) key = None \<longleftrightarrow> store w key = None)"
proof (induction ms arbitrary: w)
  case Nil
  then show ?case by simp
next
  case (Cons m ms)
  let ?w1 = "update_task_progress_from_agent env task_id ''PROCESSING'' m w"
  obtain tr1 where t1: "trace ?w1 = trace w @ tr1" "list_all quiet tr1"
    using update_from_agent_effects [of env task_id m w key] by blast
  obtain tr2 where t2: "trace (report env task_id ms ?w1) = trace ?w1 @ tr2" "list_all quiet tr2"
    using Cons.IH [of ?w1] by blast
  have "trace (report env task_id (m # ms) w) = trace w @ (tr1 @ tr2)"
    using t1 t2 by simp
  moreover have "list_all quiet (tr1 @ tr2)"
    using t1 t2 by simp
  ultimately have tr: "\<exists>tr. trace (report env task_id (m # ms) w) = trace w @ tr
      \<and> list_all quiet tr"
    by blast
  show ?case
    using tr Cons.IH [of ?w1] update_from_agent_effects [of env task_id m w key]
    by simp
qed

lemma get_cached_job_results_frame:
  "trace (snd (get_cached_job_results env username w)) = trace w
   \<and> posts (snd (get_cached_job_results env username w)) = posts w
   \<and> store (snd (get_cached_job_results env username w)) = store w"
  by (simp add: get_cached_job_results_def is_cache_entry_expired_def read_clock_def Let_def
      split: option.splits)

lemma inject_cached_results_text:
  "(\<exists>s'. fst (inject_cached_results env user (PromptText s) w) = PromptText s')
   \<and> trace (snd (inject_cached_results env user (PromptText s) w)) = trace w
   \<and> posts (snd (inject_cached_results env user (PromptText s) w)) = posts w
   \<and> store (snd (inject_cached_results env user (PromptText s) w)) = store w"
  using get_cached_job_results_frame [of env "name user" w]
  by (simp add: inject_cached_results_def Let_def split_beta)

lemma prompt_text_result:
  "fst (prompt env outcome user (PromptText s) websocket_url task_id w) =
     (case outcome of
        Responds response_text \<Rightarrow> Inr response_text
      | Fails st e \<Rightarrow> Inr (''Failed to process request: '' @ e)
      | Escapes e \<Rightarrow> Inl e)"
proof -
  obtain s' where "fst (inject_cached_results env user (PromptText s) w) = PromptText s'"
    using inject_cached_results_text [of env user s w] by blast
  then show ?thesis
    by (cases outcome) (simp_all add: prompt_def Let_def split_beta is_glue_result_def)
qed

lemma prompt_text_effects:
  "(\<exists>tr. trace (snd (prompt env outcome user (PromptText s) websocket_url task_id w))
          = trace w @ tr \<and> list_all quiet tr)
   \<and> (store (snd (prompt env outcome user (PromptText s) websocket_url task_id w)) key = None
        \<longleftrightarrow> store w key = None)"
proof -
  let ?i = "inject_cached_results env user (PromptText s) w"
  obtain s' where cp: "fst ?i = PromptText s'"
    using inject_cached_results_text [of env user s w] by blast
  have i: "trace (snd ?i) = trace w" "store (snd ?i) = store w"
    using inject_cached_results_text [of env user s w] by simp_all
  show ?thesis
  proof (cases outcome)
    case (Escapes e)
    then show ?thesis by (simp add: prompt_def)
  next
    case (Fails st e)
    let ?w2 = "report env task_id (take (updates_before st) agent_progress_messages) (snd ?i)"
    obtain tr where tr: "trace ?w2 = trace (snd ?i) @ tr" "list_all quiet tr"
      using report_effects [of env task_id _ "snd ?i" key] by blast
    have st2: "store ?w2 key = None \<longleftrightarrow> store w key = None"
      using report_effects [of env task_id _ "snd ?i" key] i by simp
    have w': "snd (prompt env outcome user (PromptText s) websocket_url task_id w)
              = (if st = AgentExecution
                 then log_effect (AgentCall (agent_input_of (fst ?i))) ?w2 else ?w2)"
      using Fails by (simp add: prompt_def Let_def split_beta)
    have "trace (snd (prompt env outcome user (PromptText s) websocket_url task_id w))
          = trace w @ (tr @ (if st = AgentExecution
                             then [AgentCall (agent_input_of (fst ?i))] else []))"
      using tr i by (cases "st = AgentExecution") (simp_all add: w' log_effect_fields)
    moreover have "list_all quiet (tr @ (if st = AgentExecution
                             then [AgentCall (agent_input_of (fst ?i))] else []))"
      using tr by simp
    ultimately have "\<exists>tr. trace (snd (prompt env outcome user (PromptText s) websocket_url
         task_id w)) = trace w @ tr \<and> list_all quiet tr"
      by blast
    then show ?thesis
      using st2 by (cases "st = AgentExecution") (simp_all add: w' log_effect_fields)
  next
    case (Responds response_text)
    let ?w2 = "report env task_id (take 5 agent_progress_messages) (snd ?i)"
    let ?w3 = "log_effect (AgentCall (agent_input_of (fst ?i))) ?w2"
    let ?w4 = "report env task_id (drop 5 agent_progress_messages) ?w3"
    obtain tr2 where tr2: "trace ?w2 = trace (snd ?i) @ tr2" "list_all quiet tr2"
      using report_effects [of env task_id _ "snd ?i" key] by blast
    obtain tr4 where tr4: "trace ?w4 = trace ?w3 @ tr4" "list_all quiet tr4"
      using report_effects [of env task_id _ ?w3 key] by blast
    have st2: "store ?w2 key = None \<longleftrightarrow> store w key = None"
      using report_effects [of env task_id _ "snd ?i" key] i by simp
    have st4: "store ?w4 key = None \<longleftrightarrow> store w key = None"
      using report_effects [of env task_id _ ?w3 key] st2 by (simp add: log_effect_fields)
    have w': "snd (prompt env outcome user (PromptText s) websocket_url task_id w) = ?w4"
      using Responds cp by (simp add: prompt_def Let_def split_beta is_glue_result_def)
    have "trace ?w4 = trace w @ (tr2 @ [AgentCall (agent_input_of (fst ?i))] @ tr4)"
      using tr2 tr4 i by (simp add: log_effect_fields)
    moreover have "list_all quiet (tr2 @ [AgentCall (agent_input_of (fst ?i))] @ tr4)"
      using tr2 tr4 by simp
    ultimately have "\<exists>tr. trace ?w4 = trace w @ tr \<and> list_all quiet tr"
      by blast
    then show ?thesis
      using st4 by (simp add: w')
  qed
qed

lemma send_websocket_notification_effects:
  "trace (snd (send_websocket_notification env username message websocket_url w))
   = trace w @ (if sends websocket_url then [Post (the websocket_url) username message] else [])
   \<and> store (snd (send_websocket_notification env username message websocket_url w)) = store w"
  by (simp add: send_websocket_notification_def sends_def post_def Let_def
      split: option.splits)

lemma process_agent_background_unfold:
  "process_agent_background env outcome task_id user prompt_text websocket_url w
   = snd (send_websocket_notification env (name user) (snd (terminal_write outcome))
            websocket_url
            (update_task_progress env task_id (fst (terminal_write outcome))
               (snd (terminal_write outcome))
               (snd (prompt env outcome user (PromptText prompt_text) websocket_url
                       (Some task_id)
                       (update_task_progress env task_id ''PROCESSING''
                          ''Agent is analyzing your request...'' w)))))"
proof (cases outcome)
  case (Responds response_text)
  show ?thesis
    unfolding Responds
    by (simp add: process_agent_background_def Let_def split_beta prompt_text_result)
next
  case (Fails st e)
  show ?thesis
    unfolding Fails
    by (simp add: process_agent_background_def Let_def split_beta prompt_text_result)
next
  case (Escapes e)
  show ?thesis
    unfolding Escapes
    by (simp add: process_agent_background_def Let_def split_beta prompt_text_result)
qed

lemma handle_async_is_background:
  "snd (handle_async_agent_processing env outcome event w)
   = process_agent_background env outcome (ev_task_id event)
       \<lparr>uid = ev_user_id event, name = ev_username event\<rparr> (ev_prompt event)
       (ev_websocket_url event) w"
proof -
  let ?u = "\<lparr>uid = ev_user_id event, name = ev_username event\<rparr>"
  let ?w1 = "update_task_progress env (ev_task_id event) ''PROCESSING''
               ''Agent is analyzing your request...'' w"
  let ?p = "prompt env outcome ?u (PromptText (ev_prompt event)) (ev_websocket_url event)
              (Some (ev_task_id event)) ?w1"
  obtain r w2 where p: "?p = (r, w2)"
    by (cases ?p)
  show ?thesis
    by (cases r)
      (simp_all add: handle_async_agent_processing_def process_agent_background_def p
        Let_def split_beta)
qed

lemma background_shape:
  "\<exists>pre b. trace (process_agent_background env outcome task_id user prompt_text websocket_url w)
        = trace w @ pre
          @ [TaskUpdate task_id (fst (terminal_write outcome)) (snd (terminal_write outcome)) b]
          @ (if sends websocket_url
             then [Post (the websocket_url) (name user) (snd (terminal_write outcome))]
             else [])
      \<and> list_all quiet pre
      \<and> ((\<forall>n. s3_up env n) \<and> store w (task_key task_id) \<noteq> None \<longrightarrow> b)
      \<and> (b \<longrightarrow> (\<exists>sd. store (process_agent_background env outcome task_id user prompt_text
                              websocket_url w) (task_key task_id) = Some sd
                       \<and> sd ''status'' = Some (fst (terminal_write outcome))
                       \<and> sd ''progress'' = Some (snd (terminal_write outcome))))"
proof -
  let ?t = "fst (terminal_write outcome)" and ?m = "snd (terminal_write outcome)"
  let ?w1 = "update_task_progress env task_id ''PROCESSING''
               ''Agent is analyzing your request...'' w"
  let ?w2 = "snd (prompt env outcome user (PromptText prompt_text) websocket_url
                    (Some task_id) ?w1)"
  let ?w3 = "update_task_progress env task_id ?t ?m ?w2"
  let ?w4 = "snd (send_websocket_notification env (name user) ?m websocket_url ?w3)"
  let ?key = "task_key task_id"
  have final: "process_agent_background env outcome task_id user prompt_text websocket_url w
               = ?w4"
    by (rule process_agent_background_unfold)
  obtain tr where tr: "trace ?w2 = trace ?w1 @ tr" "list_all quiet tr"
    using prompt_text_effects [of env outcome user prompt_text websocket_url "Some task_id"
        ?w1 ?key] by blast
  have objects: "store ?w2 ?key = None \<longleftrightarrow> store w ?key = None"
    using prompt_text_effects [of env outcome user prompt_text websocket_url "Some task_id"
        ?w1 ?key]
    by (simp add: update_task_progress_keeps_objects)
  let ?first = "TaskUpdate task_id ''PROCESSING'' ''Agent is analyzing your request...''
                  (written env task_id w)"
  let ?pre = "?first # tr"
  let ?b = "written env task_id ?w2"
  have shape: "trace ?w4 = trace w @ ?pre @ [TaskUpdate task_id ?t ?m ?b]
          @ (if sends websocket_url then [Post (the websocket_url) (name user) ?m] else [])"
    using tr
    by (simp add: send_websocket_notification_effects update_task_progress_trace)
  have quiet_pre: "list_all quiet ?pre"
    using tr by simp
  have up: "(\<forall>n. s3_up env n) \<and> store w ?key \<noteq> None \<longrightarrow> ?b"
    using objects by (simp add: written_def)
  have stored: "?b \<longrightarrow> (\<exists>sd. store ?w4 ?key = Some sd \<and> sd ''status'' = Some ?t
                       \<and> sd ''progress'' = Some ?m)"
    by (simp add: send_websocket_notification_effects update_task_progress_store)
  show ?thesis
    unfolding final using shape quiet_pre up stored by blast
qed

lemma update_statuses_append:
  "update_statuses (xs @ ys) = update_statuses xs @ update_statuses ys"
  by (induction xs rule: update_statuses.induct) simp_all

lemma quiet_statuses:
  "list_all quiet tr \<Longrightarrow>
   update_statuses tr = replicate (length (update_statuses tr)) ''PROCESSING''"
  by (induction tr rule: update_statuses.induct) simp_all

lemma stored_field_shape:
  "(\<exists>sd. store w (task_key task_id) = Some sd \<and> sd k = Some v)
   \<longleftrightarrow> stored_field w task_id k = Some v"
  by (simp add: stored_field_def split: option.splits)

lemma background_statuses:
  "\<exists>n. update_statuses (trace (process_agent_background env outcome task_id user prompt_text
            websocket_url w))
        = update_statuses (trace w) @ replicate n ''PROCESSING''
          @ [fst (terminal_write outcome)]"
proof -
  obtain pre b where
    shape: "trace (process_agent_background env outcome task_id user prompt_text websocket_url w)
        = trace w @ pre
          @ [TaskUpdate task_id (fst (terminal_write outcome)) (snd (terminal_write outcome)) b]
          @ (if sends websocket_url
             then [Post (the websocket_url) (name user) (snd (terminal_write outcome))]
             else [])"
    and q: "list_all quiet pre"
    using background_shape [of env outcome task_id user prompt_text websocket_url w] by blast
  have "update_statuses (trace (process_agent_background env outcome task_id user prompt_text
            websocket_url w))
        = update_statuses (trace w) @ update_statuses pre @ [fst (terminal_write outcome)]"
    by (simp add: shape update_statuses_append)
  then show ?thesis
    using quiet_statuses [OF q] by metis
qed

lemma terminal_write_status:
  "fst (terminal_write outcome) = ''COMPLETED'' \<or> fst (terminal_write outcome) = ''FAILED''"
  by (cases outcome) simp_all

text \<open>
  C5, as the code has it. In both background functions the task update with the
  terminal status and message is issued before any notification: the trace of a run is
  a sequence of quiet effects (task updates with status PROCESSING and the call of the
  reasoning engine, no POST), then the terminal update (COMPLETED with the response, or
  with the failure text \<open>prompt\<close> returns; FAILED with the error message when an
  exception leaves \<open>prompt\<close>), then at most one POST, which carries the same message.
  The update is written, and the stored record holds the terminal status and message,
  when the record exists and the store answers its requests. \<open>update_task_progress\<close>
  logs and swallows a failed read or write, and the notification is sent all the same.
\<close>

theorem terminal_update_precedes_notification:
  "(\<exists>pre b. trace (process_agent_background env outcome task_id user prompt_text
                      websocket_url w)
        = trace w @ pre
          @ [TaskUpdate task_id (fst (terminal_write outcome)) (snd (terminal_write outcome)) b]
          @ (if sends websocket_url
             then [Post (the websocket_url) (name user) (snd (terminal_write outcome))]
             else [])
      \<and> list_all quiet pre
      \<and> ((\<forall>n. s3_up env n) \<and> store w (task_key task_id) \<noteq> None \<longrightarrow> b)
      \<and> (b \<longrightarrow> stored_field (process_agent_background env outcome task_id user prompt_text
                               websocket_url w) task_id ''status''
                  = Some (fst (terminal_write outcome))
                \<and> stored_field (process_agent_background env outcome task_id user prompt_text
                               websocket_url w) task_id ''progress''
                  = Some (snd (terminal_write outcome))))
   \<and> (\<exists>pre b. trace (snd (handle_async_agent_processing env outcome event w))
        = trace w @ pre
          @ [TaskUpdate (ev_task_id event) (fst (terminal_write outcome))
               (snd (terminal_write outcome)) b]
          @ (if sends (ev_websocket_url event)
             then [Post (the (ev_websocket_url event)) (ev_username event)
                     (snd (terminal_write outcome))]
             else [])
      \<and> list_all quiet pre
      \<and> ((\<forall>n. s3_up env n) \<and> store w (task_key (ev_task_id event)) \<noteq> None \<longrightarrow> b)
      \<and> (b \<longrightarrow> stored_field (snd (handle_async_agent_processing env outcome event w))
                    (ev_task_id event) ''status''
                  = Some (fst (terminal_write outcome))
                \<and> stored_field (snd (handle_async_agent_processing env outcome event w))
                    (ev_task_id event) ''progress''
                  = Some (snd (terminal_write outcome))))"
proof
  show "\<exists>pre b. trace (process_agent_background env outcome task_id user prompt_text
                      websocket_url w)
        = trace w @ pre
          @ [TaskUpdate task_id (fst (terminal_write outcome)) (snd (terminal_write outcome)) b]
          @ (if sends websocket_url
             then [Post (the websocket_url) (name user) (snd (terminal_write outcome))]
             else [])
      \<and> list_all quiet pre
      \<and> ((\<forall>n. s3_up env n) \<and> store w (task_key task_id) \<noteq> None \<longrightarrow> b)
      \<and> (b \<longrightarrow> stored_field (process_agent_background env outcome task_id user prompt_text
                               websocket_url w) task_id ''status''
                  = Some (fst (terminal_write outcome))
                \<and> stored_field (process_agent_background env outcome task_id user prompt_text
                               websocket_url w) task_id ''progress''
                  = Some (snd (terminal_write outcome)))"
    using background_shape [of env outcome task_id user prompt_text websocket_url w]
    unfolding stored_field_shape [symmetric] by blast
next
  let ?u = "\<lparr>uid = ev_user_id event, name = ev_username event\<rparr>"
  show "\<exists>pre b. trace (snd (handle_async_agent_processing env outcome event w))
        = trace w @ pre
          @ [TaskUpdate (ev_task_id event) (fst (terminal_write outcome))
               (snd (terminal_write outcome)) b]
          @ (if sends (ev_websocket_url event)
             then [Post (the (ev_websocket_url event)) (ev_username event)
                     (snd (terminal_write outcome))]
             else [])
      \<and> list_all quiet pre
      \<and> ((\<forall>n. s3_up env n) \<and> store w (task_key (ev_task_id event)) \<noteq> None \<longrightarrow> b)
      \<and> (b \<longrightarrow> stored_field (snd (handle_async_agent_processing env outcome event w))
                    (ev_task_id event) ''status''
                  = Some (fst (terminal_write outcome))
                \<and> stored_field (snd (handle_async_agent_processing env outcome event w))
                    (ev_task_id event) ''progress''
                  = Some (snd (terminal_write outcome)))"
    using background_shape [of env outcome "ev_task_id event" ?u "ev_prompt event"
        "ev_websocket_url event" w]
    unfolding stored_field_shape [symmetric] handle_async_is_background
    by (simp only: user.simps) blast
qed

lemma sample_sends: "sends notify_url"
  by (simp add: sends_def notify_url_def)

lemma sample_plain_request:
  "\<not> list_ex (\<lambda>keyword. contains keyword (latin_lower ''count the rows'')) status_keywords"
  by code_simp

lemma sample_no_keyword:
  "\<not> list_ex (\<lambda>keyword. contains keyword (str_lower outage_env ''count the rows''))
       status_keywords"
  using sample_plain_request by (simp add: outage_env_def twice_refused_def)

theorem terminal_update_precedes_notification_witness:
  "stored_field (process_agent_background steady_env (Responds ''42 rows'') ''t1'' alice
                   ''count the rows'' notify_url task_world) ''t1'' ''status''
     = Some ''COMPLETED''
   \<and> stored_field (process_agent_background steady_env (Responds ''42 rows'') ''t1'' alice
                   ''count the rows'' notify_url task_world) ''t1'' ''progress''
     = Some ''42 rows''
   \<and> last (trace (process_agent_background steady_env (Responds ''42 rows'') ''t1'' alice
                   ''count the rows'' notify_url task_world))
     = Post ''https://web.example/api/notify'' ''alice'' ''42 rows''"
proof -
  let ?w = "process_agent_background steady_env (Responds ''42 rows'') ''t1'' alice
              ''count the rows'' notify_url task_world"
  have up: "(\<forall>n. s3_up steady_env n) \<and> store task_world (task_key ''t1'') \<noteq> None"
    by (simp add: steady_env_def twice_refused_def task_world_store)
  obtain pre b where
    shape: "trace ?w = trace task_world @ pre
          @ [TaskUpdate ''t1'' (fst (terminal_write (Responds ''42 rows'')))
               (snd (terminal_write (Responds ''42 rows''))) b]
          @ (if sends notify_url
             then [Post (the notify_url) (name alice) (snd (terminal_write (Responds ''42 rows'')))]
             else [])"
    and b: "(\<forall>n. s3_up steady_env n) \<and> store task_world (task_key ''t1'') \<noteq> None \<longrightarrow> b"
    and stored: "b \<longrightarrow> stored_field ?w ''t1'' ''status''
                    = Some (fst (terminal_write (Responds ''42 rows'')))
                  \<and> stored_field ?w ''t1'' ''progress''
                    = Some (snd (terminal_write (Responds ''42 rows'')))"
    using terminal_update_precedes_notification [of steady_env "Responds ''42 rows''" "''t1''"
        alice "''count the rows''" notify_url task_world]
    by blast
  have "last (trace ?w) = Post ''https://web.example/api/notify'' ''alice'' ''42 rows''"
    by (simp add: shape sample_sends) (simp add: notify_url_def alice_def)
  then show ?thesis
    using up b stored by simp
qed

lemma update_written:
  assumes "written env task_id w"
  shows "s3_reqs (update_task_progress env task_id status message w) = Suc (Suc (s3_reqs w))"
    and "store (update_task_progress env task_id status message w) (task_key task_id) \<noteq> None"
    and "trace (update_task_progress env task_id status message w)
         = trace w @ [TaskUpdate task_id status message True]"
    and "stored_field (update_task_progress env task_id status message w) task_id ''status''
         = Some status"
    and "posts (update_task_progress env task_id status message w) = posts w"
  using assms by (simp_all add: update_task_progress_unfold stored_field_def)

lemma update_store_down:
  assumes "\<not> s3_up env (s3_reqs w)"
  shows "update_task_progress env task_id status message w
         = w\<lparr>s3_reqs := Suc (s3_reqs w),
              trace := trace w @ [TaskUpdate task_id status message False]\<rparr>"
  using assms by (simp add: update_task_progress_unfold written_def)

lemma report_written:
  assumes "task_id \<noteq> []"
  shows "store w (task_key task_id) \<noteq> None \<Longrightarrow>
         \<forall>n < s3_reqs w + 2 * length ms. s3_up env n \<Longrightarrow>
         trace (report env (Some task_id) ms w)
           = trace w @ map (\<lambda>m. TaskUpdate task_id ''PROCESSING'' m True) ms
         \<and> s3_reqs (report env (Some task_id) ms w) = s3_reqs w + 2 * length ms
         \<and> store (report env (Some task_id) ms w) (task_key task_id) \<noteq> None
         \<and> posts (report env (Some task_id) ms w) = posts w
         \<and> stored_field (report env (Some task_id) ms w) task_id ''status''
             = (if ms = [] then stored_field w task_id ''status'' else Some ''PROCESSING'')"
proof (induction ms arbitrary: w)
  case Nil
  then show ?case by simp
next
  case (Cons m ms)
  let ?w1 = "update_task_progress env task_id ''PROCESSING'' m w"
  have wr: "written env task_id w"
    using Cons.prems by (simp add: written_def)
  note u = update_written [OF wr, of "''PROCESSING''" m]
  have up: "\<forall>n < s3_reqs ?w1 + 2 * length ms. s3_up env n"
    using Cons.prems(2) by (simp add: u(1))
  have step: "report env (Some task_id) (m # ms) w = report env (Some task_id) ms ?w1"
    using assms by (simp add: update_task_progress_from_agent_def)
  show ?case
    unfolding step using Cons.IH [OF u(2) up] by (simp add: u)
qed

lemma prompt_plain_text:
  assumes "\<not> list_ex (\<lambda>keyword. contains keyword (str_lower env s)) status_keywords"
  shows "prompt env (Responds response_text) user (PromptText s) websocket_url task_id w
         = (Inr response_text,
            report env task_id (drop 5 agent_progress_messages)
              (log_effect (AgentCall (Text s))
                 (report env task_id (take 5 agent_progress_messages) w)))"
  using assms
  by (simp add: prompt_def inject_cached_results_def is_glue_result_def agent_input_of_def
      Let_def)

text \<open>
  The unconditional reading of the specification (the terminal status is in the record
  before any notification is attempted) fails when the store stops answering: here the
  store answers the first fourteen requests of the run and fails from the read of the
  terminal update on. The terminal update is not written, the notification with the
  result is sent, and the record still says PROCESSING when the run is over.
\<close>

theorem notification_without_terminal_record:
  "trace (process_agent_background outage_env (Responds ''42 rows'') ''t1'' alice
            ''count the rows'' notify_url task_world)
   = [TaskUpdate ''t1'' ''PROCESSING'' ''Agent is analyzing your request...'' True,
      TaskUpdate ''t1'' ''PROCESSING'' ''Setting up agent session...'' True,
      TaskUpdate ''t1'' ''PROCESSING'' ''Processing your request...'' True,
      TaskUpdate ''t1'' ''PROCESSING'' ''Initializing data tools and connections...'' True,
      TaskUpdate ''t1'' ''PROCESSING'' ''Creating fresh AI agent with your tools...'' True,
      TaskUpdate ''t1'' ''PROCESSING''
        ''AI agent is analyzing your request and generating response...'' True,
      AgentCall (Text ''count the rows''),
      TaskUpdate ''t1'' ''PROCESSING'' ''Finalizing response...'' True,
      TaskUpdate ''t1'' ''COMPLETED'' ''42 rows'' False,
      Post ''https://web.example/api/notify'' ''alice'' ''42 rows'']
   \<and> stored_field (process_agent_background outage_env (Responds ''42 rows'') ''t1'' alice
                     ''count the rows'' notify_url task_world) ''t1'' ''status''
       = Some ''PROCESSING''"
proof -
  let ?tid = "''t1''"
  let ?w1 = "update_task_progress outage_env ?tid ''PROCESSING''
               ''Agent is analyzing your request...'' task_world"
  let ?w2 = "report outage_env (Some ?tid) (take 5 agent_progress_messages) ?w1"
  let ?w3 = "log_effect (AgentCall (Text ''count the rows'')) ?w2"
  let ?w4 = "report outage_env (Some ?tid) (drop 5 agent_progress_messages) ?w3"
  let ?w5 = "update_task_progress outage_env ?tid ''COMPLETED'' ''42 rows'' ?w4"
  let ?w6 = "snd (send_websocket_notification outage_env (name alice) ''42 rows'' notify_url ?w5)"
  have up: "s3_up outage_env n \<longleftrightarrow> n < 14" for n
    by (simp add: outage_env_def)
  have lens: "length agent_progress_messages = 6"
    by (simp add: agent_progress_messages_def)
  have first_five: "map (\<lambda>m. TaskUpdate ''t1'' ''PROCESSING'' m True)
        (take 5 agent_progress_messages)
      = [TaskUpdate ''t1'' ''PROCESSING'' ''Setting up agent session...'' True,
         TaskUpdate ''t1'' ''PROCESSING'' ''Processing your request...'' True,
         TaskUpdate ''t1'' ''PROCESSING'' ''Initializing data tools and connections...'' True,
         TaskUpdate ''t1'' ''PROCESSING'' ''Creating fresh AI agent with your tools...'' True,
         TaskUpdate ''t1'' ''PROCESSING''
           ''AI agent is analyzing your request and generating response...'' True]"
    by (simp add: agent_progress_messages_def)
  have sixth: "map (\<lambda>m. TaskUpdate ''t1'' ''PROCESSING'' m True)
        (drop 5 agent_progress_messages)
      = [TaskUpdate ''t1'' ''PROCESSING'' ''Finalizing response...'' True]"
    by (simp add: agent_progress_messages_def)
  have nonempty: "take 5 agent_progress_messages \<noteq> []" "drop 5 agent_progress_messages \<noteq> []"
    by (simp_all add: agent_progress_messages_def)
  have final: "process_agent_background outage_env (Responds ''42 rows'') ''t1'' alice
            ''count the rows'' notify_url task_world = ?w6"
    by (simp add: process_agent_background_unfold prompt_plain_text [OF sample_no_keyword])
  have wr: "written outage_env ?tid task_world"
    by (simp add: written_def up task_world_store)
  note s1 = update_written [OF wr, of "''PROCESSING''" "''Agent is analyzing your request...''"]
  have t1: "trace ?w1
            = [TaskUpdate ''t1'' ''PROCESSING'' ''Agent is analyzing your request...'' True]"
    and r1: "s3_reqs ?w1 = 2"
    using s1 by (simp_all add: task_world_def idle_world_def)
  have "\<forall>n < s3_reqs ?w1 + 2 * length (take 5 agent_progress_messages). s3_up outage_env n"
    by (simp add: r1 up lens)
  from report_written [OF _ s1(2) this]
  have s2: "trace ?w2 = trace ?w1
              @ map (\<lambda>m. TaskUpdate ''t1'' ''PROCESSING'' m True) (take 5 agent_progress_messages)"
    "s3_reqs ?w2 = 12" "store ?w2 (task_key ?tid) \<noteq> None" "posts ?w2 = posts ?w1"
    by (simp_all add: r1 lens)
  have s3: "trace ?w3 = trace ?w2 @ [AgentCall (Text ''count the rows'')]"
    "s3_reqs ?w3 = 12" "store ?w3 (task_key ?tid) \<noteq> None" "posts ?w3 = posts ?w2"
    using s2 by (simp_all add: log_effect_fields log_effect_def)
  have "\<forall>n < s3_reqs ?w3 + 2 * length (drop 5 agent_progress_messages). s3_up outage_env n"
    by (simp add: s3(2) up lens)
  from report_written [OF _ s3(3) this]
  have s4: "trace ?w4 = trace ?w3
              @ map (\<lambda>m. TaskUpdate ''t1'' ''PROCESSING'' m True) (drop 5 agent_progress_messages)"
    "s3_reqs ?w4 = 14" "posts ?w4 = posts ?w3"
    "stored_field ?w4 ?tid ''status'' = Some ''PROCESSING''"
    by (simp_all add: s3(2) lens nonempty)
  have down: "\<not> s3_up outage_env (s3_reqs ?w4)"
    by (simp add: s4(2) up)
  have s5: "trace ?w5 = trace ?w4 @ [TaskUpdate ''t1'' ''COMPLETED'' ''42 rows'' False]"
    "stored_field ?w5 ?tid ''status'' = stored_field ?w4 ?tid ''status''"
    by (simp_all add: update_store_down [OF down] stored_field_def)
  have s6: "trace ?w6 = trace ?w5 @ [Post ''https://web.example/api/notify'' ''alice'' ''42 rows'']"
    "stored_field ?w6 ?tid ''status'' = stored_field ?w5 ?tid ''status''"
    using send_websocket_notification_effects [of outage_env "name alice" "''42 rows''"
        notify_url ?w5] sample_sends
    by (simp_all add: stored_field_def notify_url_def alice_def)
  show ?thesis
    unfolding final
    by (simp add: s6 s5 s4 s3 s2 t1 first_five sixth)
qed

lemma handle_async_statuses:
  "\<exists>n. update_statuses (trace (snd (handle_async_agent_processing env outcome event w)))
        = update_statuses (trace w) @ replicate n ''PROCESSING''
          @ [fst (terminal_write outcome)]"
  unfolding handle_async_is_background by (rule background_statuses)

lemma created_fields_kept:
  assumes created: "create_task_session env task_id user_id username prompt_text w = (Inr t, w1)"
    and field: "k \<noteq> ''status''" "k \<noteq> ''progress''" "k \<noteq> ''updated_at''"
  shows "stored_field (updates env us w1) task_id k
         = [''task_id'' \<mapsto> task_id, ''user_id'' \<mapsto> user_id, ''username'' \<mapsto> username,
            ''prompt'' \<mapsto> prompt_text, ''status'' \<mapsto> ''STARTED'',
            ''created_at'' \<mapsto> isoformat env (utcnow env (clock_reads w)),
            ''progress'' \<mapsto> ''Initializing agent reasoning...''] k"
proof -
  let ?sd = "[''task_id'' \<mapsto> task_id, ''user_id'' \<mapsto> user_id, ''username'' \<mapsto> username,
            ''prompt'' \<mapsto> prompt_text, ''status'' \<mapsto> ''STARTED'',
            ''created_at'' \<mapsto> isoformat env (utcnow env (clock_reads w)),
            ''progress'' \<mapsto> ''Initializing agent reasoning...'']"
  have "store w1 (task_key task_id) = Some ?sd"
    using create_task_session_store [OF created] by simp
  from updates_keep_fields [OF field this, of env us]
  obtain sd' where "store (updates env us w1) (task_key task_id) = Some sd'" "sd' k = ?sd k"
    by blast
  then show ?thesis
    by (simp add: stored_field_def)
qed

text \<open>
  C8. After \<open>create_task_session\<close> has stored the record of a task, any sequence of
  updates (of this task or of others) leaves \<open>task_id\<close>, \<open>user_id\<close>, \<open>username\<close>,
  \<open>prompt\<close> and \<open>created_at\<close> of the record as they were created. A single update
  changes no field of any stored record other than \<open>status\<close>, \<open>progress\<close> and
  \<open>updated_at\<close>, and neither creates nor deletes a record. In a run of the background
  processing the statuses of the task updates are PROCESSING any number of times and
  then one terminal status, COMPLETED or FAILED: no update follows the terminal one.
\<close>

theorem task_store_update_frame:
  assumes created: "create_task_session env task_id user_id username prompt_text w = (Inr t, w1)"
  shows "stored_field (updates env us w1) task_id ''task_id'' = Some task_id
         \<and> stored_field (updates env us w1) task_id ''user_id'' = Some user_id
         \<and> stored_field (updates env us w1) task_id ''username'' = Some username
         \<and> stored_field (updates env us w1) task_id ''prompt'' = Some prompt_text
         \<and> stored_field (updates env us w1) task_id ''created_at''
             = Some (isoformat env (utcnow env (clock_reads w)))
         \<and> (\<forall>key sd k. store w0 key = Some sd \<and> k \<noteq> ''status'' \<and> k \<noteq> ''progress''
                \<and> k \<noteq> ''updated_at'' \<longrightarrow>
              (\<exists>sd'. store (update_task_progress env task_id' status message w0) key = Some sd'
                     \<and> sd' k = sd k))
         \<and> (\<forall>key. store (update_task_progress env task_id' status message w0) key = None
                    \<longleftrightarrow> store w0 key = None)
         \<and> (\<exists>n. update_statuses (trace (process_agent_background env outcome task_id' user
                      prompt_text' websocket_url w0))
                 = update_statuses (trace w0) @ replicate n ''PROCESSING''
                   @ [fst (terminal_write outcome)])
         \<and> (\<exists>n. update_statuses (trace (snd (handle_async_agent_processing env outcome
                      event w0)))
                 = update_statuses (trace w0) @ replicate n ''PROCESSING''
                   @ [fst (terminal_write outcome)])
         \<and> (fst (terminal_write outcome) = ''COMPLETED''
              \<or> fst (terminal_write outcome) = ''FAILED'')"
proof (intro conjI)
  show "stored_field (updates env us w1) task_id ''task_id'' = Some task_id"
    using created_fields_kept [OF created, of "''task_id''" us] by simp
  show "stored_field (updates env us w1) task_id ''user_id'' = Some user_id"
    using created_fields_kept [OF created, of "''user_id''" us] by simp
  show "stored_field (updates env us w1) task_id ''username'' = Some username"
    using created_fields_kept [OF created, of "''username''" us] by simp
  show "stored_field (updates env us w1) task_id ''prompt'' = Some prompt_text"
    using created_fields_kept [OF created, of "''prompt''" us] by simp
  show "stored_field (updates env us w1) task_id ''created_at''
             = Some (isoformat env (utcnow env (clock_reads w)))"
    using created_fields_kept [OF created, of "''created_at''" us] by simp
  show "\<forall>key sd k. store w0 key = Some sd \<and> k \<noteq> ''status'' \<and> k \<noteq> ''progress''
                \<and> k \<noteq> ''updated_at'' \<longrightarrow>
              (\<exists>sd'. store (update_task_progress env task_id' status message w0) key = Some sd'
                     \<and> sd' k = sd k)"
    using update_task_progress_keeps_fields by blast
  show "\<forall>key. store (update_task_progress env task_id' status message w0) key = None
                    \<longleftrightarrow> store w0 key = None"
    by (simp add: update_task_progress_keeps_objects)
  show "\<exists>n. update_statuses (trace (process_agent_background env outcome task_id' user
                      prompt_text' websocket_url w0))
                 = update_statuses (trace w0) @ replicate n ''PROCESSING''
                   @ [fst (terminal_write outcome)]"
    by (rule background_statuses)
  show "\<exists>n. update_statuses (trace (snd (handle_async_agent_processing env outcome
                      event w0)))
                 = update_statuses (trace w0) @ replicate n ''PROCESSING''
                   @ [fst (terminal_write outcome)]"
    by (rule handle_async_statuses)
  show "fst (terminal_write outcome) = ''COMPLETED''
              \<or> fst (terminal_write outcome) = ''FAILED''"
    by (rule terminal_write_status)
qed

theorem task_store_update_frame_witness:
  "stored_field
     (updates steady_env [(''t1'', ''PROCESSING'', ''Agent is analyzing your request...''),
                          (''t2'', ''PROCESSING'', ''another task''),
                          (''t1'', ''COMPLETED'', ''42 rows'')]
        (snd (create_task_session steady_env ''t1'' ''u-alice'' ''alice'' ''count the rows''
                idle_world)))
     ''t1'' ''created_at'' = Some ''2024-01-01T00:16:40''
   \<and> stored_field
     (updates steady_env [(''t1'', ''PROCESSING'', ''Agent is analyzing your request...''),
                          (''t2'', ''PROCESSING'', ''another task''),
                          (''t1'', ''COMPLETED'', ''42 rows'')]
        (snd (create_task_session steady_env ''t1'' ''u-alice'' ''alice'' ''count the rows''
                idle_world)))
     ''t1'' ''user_id'' = Some ''u-alice''
   \<and> stored_field (update_task_progress steady_env ''t1'' ''COMPLETED'' ''42 rows'' task_world)
       ''t1'' ''prompt'' = Some ''count the rows''"
proof -
  let ?c = "create_task_session steady_env ''t1'' ''u-alice'' ''alice'' ''count the rows''
              idle_world"
  have "fst ?c = Inr ''t1''"
    by (simp add: create_task_session_def read_clock_def put_object_def steady_env_def
        twice_refused_def idle_world_def Let_def)
  then have created: "?c = (Inr ''t1'', snd ?c)"
    by (metis prod.collapse)
  have stamp: "isoformat steady_env (utcnow steady_env (clock_reads idle_world))
               = ''2024-01-01T00:16:40''"
    by (simp add: steady_env_def twice_refused_def plain_iso_def)
  let ?us = "[(''t1'', ''PROCESSING'', ''Agent is analyzing your request...''),
              (''t2'', ''PROCESSING'', ''another task''),
              (''t1'', ''COMPLETED'', ''42 rows'')]"
  have "stored_field (updates steady_env ?us (snd ?c)) ''t1'' ''user_id'' = Some ''u-alice''
        \<and> stored_field (updates steady_env ?us (snd ?c)) ''t1'' ''created_at''
            = Some (isoformat steady_env (utcnow steady_env (clock_reads idle_world)))"
    using task_store_update_frame [OF created, where us = ?us]
    by blast
  moreover have "stored_field (update_task_progress steady_env ''t1'' ''COMPLETED'' ''42 rows''
                    task_world) ''t1'' ''prompt'' = Some ''count the rows''"
  proof -
    have kept: "store task_world (task_key ''t1'') = Some sample_session
                \<and> ''prompt'' \<noteq> ''status'' \<and> ''prompt'' \<noteq> ''progress''
                \<and> ''prompt'' \<noteq> ''updated_at''"
      by (simp add: task_world_store)
    note frame = task_store_update_frame [OF created, where ?w0.0 = task_world
          and task_id' = "''t1''" and status = "''COMPLETED''" and message = "''42 rows''",
          THEN conjunct2, THEN conjunct2, THEN conjunct2, THEN conjunct2, THEN conjunct2,
          THEN conjunct1, rule_format, of "task_key ''t1''" sample_session "''prompt''"]
    obtain sd' where "store (update_task_progress steady_env ''t1'' ''COMPLETED'' ''42 rows''
                         task_world) (task_key ''t1'') = Some sd'"
      and "sd' ''prompt'' = sample_session ''prompt''"
      using frame [OF kept] by blast
    then show ?thesis
      by (simp add: stored_field_def sample_session_def)
  qed
  ultimately show ?thesis
    by (simp add: stamp)
qed

subsection \<open>Job results from the poller\<close>

lemma agent_send_frame:
  "completed_jobs_cache (snd (agent_send_websocket_notification env username message url w))
   = completed_jobs_cache w"
  by (simp add: agent_send_websocket_notification_def post_def Let_def split: option.splits)

lemma prompt_glue_event:
  assumes "ev ''type'' = Some ''glue_job_result''" "\<not> absent url"
  shows "prompt env (Responds response_text) user (PromptEvent ev) url None w
         = (Inr response_text,
            snd (agent_send_websocket_notification env (name user) response_text url
                   (store_job_result env user ev response_text
                      (log_effect (AgentCall (GluePrompt ev)) w))))"
  using assms
  by (simp add: prompt_def inject_cached_results_def is_glue_result_def agent_input_of_def
      report_none Let_def split_beta)

lemma prompt_event_without_url:
  assumes "absent url"
  shows "prompt env (Responds response_text) user (PromptEvent ev) url None w
         = (Inr response_text, log_effect (AgentCall (agent_input_of (PromptEvent ev))) w)"
  using assms
  by (simp add: prompt_def inject_cached_results_def report_none Let_def)

lemma handle_glue_result_cache:
  assumes "payload event ''type'' = Some ''glue_job_result''"
    "\<not> absent (payload event ''websocket_url'')"
  shows "fst (handle_glue_result env (Responds response_text) event w) = (200, response_text)"
    and "completed_jobs_cache (snd (handle_glue_result env (Responds response_text) event w))
         = (completed_jobs_cache w)(str_lower env (event_username event) \<mapsto>
             [''type'' \<mapsto> ''completed_glue_job'',
              ''job_name'' \<mapsto> get_or (payload event) ''glue_job_name'' ''unknown'',
              ''run_id'' \<mapsto> get_or (payload event) ''glue_run_id'' [],
              ''status'' \<mapsto> get_or (payload event) ''status'' ''UNKNOWN'',
              ''completion_time'' \<mapsto> isoformat env (utcnow env (clock_reads w)),
              ''results'' \<mapsto> response_text,
              ''session_id'' \<mapsto> get_or (payload event) ''session_id'' []])"
  using assms
  by (simp_all add: handle_glue_result_def prompt_glue_event agent_send_frame
      store_job_result_cache log_effect_fields event_username_def Let_def)

text \<open>
  C9, as the code has it. The cache is written inside the branch of \<open>prompt\<close> that sends
  the notification: for an event of type \<open>glue_job_result\<close> that carries a websocket
  URL and for which the reasoning engine responds, the service answers 200 and stores
  the result under the lower-cased username of the event. A read of the cache for that
  user that follows (any casing, entry not older than the time to live, the standard
  library round-tripping the timestamp) answers the text built from the new entry, and
  a status-style query (a prompt containing one of the status keywords) gets that text
  put in front of the user's query.
\<close>

theorem completion_event_is_cached:
  assumes glue: "payload event ''type'' = Some ''glue_job_result''"
    and url: "\<not> absent (payload event ''websocket_url'')"
    and same_user: "str_lower env (name asker) = str_lower env (event_username event)"
    and printed: "isoformat env (utcnow env (clock_reads w)) \<noteq> []"
    and roundtrip: "fromisoformat env (replace_Z (isoformat env (utcnow env (clock_reads w))))
                    = Some (utcnow env (clock_reads w))"
    and later: "completed_jobs_cache w2
                = completed_jobs_cache (snd (handle_glue_result env (Responds response_text)
                                               event w))"
    and fresh: "\<not> utcnow env (clock_reads w2) - utcnow env (clock_reads w)
                  > real_of_int (cache_ttl_hours env * 3600)"
    and query: "list_ex (\<lambda>keyword. contains keyword (str_lower env s)) status_keywords"
  shows "fst (handle_glue_result env (Responds response_text) event w) = (200, response_text)
         \<and> fst (get_cached_job_results env (name asker) w2)
           = newline @ ''CACHED JOB RESULTS AVAILABLE:'' @ newline
             @ ''- Job: '' @ get_or (payload event) ''glue_job_name'' ''unknown'' @ newline
             @ ''- Status: '' @ get_or (payload event) ''status'' ''UNKNOWN'' @ newline
             @ ''- Completed: '' @ isoformat env (utcnow env (clock_reads w)) @ newline
             @ ''- Results: '' @ response_text @ newline
         \<and> fst (inject_cached_results env asker (PromptText s) w2)
           = PromptText (fst (get_cached_job_results env (name asker) w2)
                         @ newline @ newline @ ''User Query: '' @ s)"
proof -
  let ?jd = "[''type'' \<mapsto> ''completed_glue_job'',
              ''job_name'' \<mapsto> get_or (payload event) ''glue_job_name'' ''unknown'',
              ''run_id'' \<mapsto> get_or (payload event) ''glue_run_id'' [],
              ''status'' \<mapsto> get_or (payload event) ''status'' ''UNKNOWN'',
              ''completion_time'' \<mapsto> isoformat env (utcnow env (clock_reads w)),
              ''results'' \<mapsto> response_text,
              ''session_id'' \<mapsto> get_or (payload event) ''session_id'' []]"
  have answer: "fst (handle_glue_result env (Responds response_text) event w)
                = (200, response_text)"
    using glue url by (rule handle_glue_result_cache(1))
  have entry: "completed_jobs_cache w2 (str_lower env (name asker)) = Some ?jd"
    using later same_user handle_glue_result_cache(2) [OF glue url, of env response_text w]
    by simp
  have stamp: "get_or ?jd ''completion_time'' [] = isoformat env (utcnow env (clock_reads w))"
    by (simp add: get_or_def)
  have read: "fst (get_cached_job_results env (name asker) w2) = cached_results_text ?jd"
    using cache_read_checks_ttl_general [OF entry, where ct = "utcnow env (clock_reads w)"]
      printed roundtrip fresh
    by (simp add: stamp)
  have rendered: "cached_results_text ?jd
           = newline @ ''CACHED JOB RESULTS AVAILABLE:'' @ newline
             @ ''- Job: '' @ get_or (payload event) ''glue_job_name'' ''unknown'' @ newline
             @ ''- Status: '' @ get_or (payload event) ''status'' ''UNKNOWN'' @ newline
             @ ''- Completed: '' @ isoformat env (utcnow env (clock_reads w)) @ newline
             @ ''- Results: '' @ response_text @ newline"
    by (simp add: cached_results_text_def get_or_def)
  have found: "fst (get_cached_job_results env (name asker) w2) \<noteq> []"
    using read cached_results_text_nonempty by simp
  have injected: "fst (inject_cached_results env asker (PromptText s) w2)
           = PromptText (fst (get_cached_job_results env (name asker) w2)
                         @ newline @ newline @ ''User Query: '' @ s)"
    using query found by (simp add: inject_cached_results_def Let_def split_beta)
  show ?thesis
    using answer read rendered injected by simp
qed

lemma sample_events:
  "payload notified_event ''type'' = Some ''glue_job_result''"
  "\<not> absent (payload notified_event ''websocket_url'')"
  "event_username notified_event = ''Alice''"
  "absent (payload silent_event ''websocket_url'')"
  "event_username silent_event = ''Alice''"
  by (simp_all add: notified_event_def silent_event_def sample_glue_fields_def absent_def
      event_username_def get_or_def)

lemma steady_lower: "str_lower steady_env = latin_lower"
  by (simp add: steady_env_def twice_refused_def)

lemma sample_done_request:
  "list_ex (\<lambda>keyword. contains keyword (latin_lower ''is my job done?'')) status_keywords"
  by code_simp

lemma sample_status_query:
  "list_ex (\<lambda>keyword. contains keyword (str_lower steady_env ''is my job done?''))
     status_keywords"
  using sample_done_request by (simp add: steady_lower)

theorem completion_event_is_cached_witness:
  "fst (handle_glue_result steady_env (Responds ''9 rows'') notified_event idle_world)
     = (200, ''9 rows'')
   \<and> fst (get_cached_job_results steady_env ''ALICE''
            (snd (handle_glue_result steady_env (Responds ''9 rows'') notified_event
                    idle_world)))
     = newline @ ''CACHED JOB RESULTS AVAILABLE:'' @ newline
       @ ''- Job: dq-sql-job'' @ newline
       @ ''- Status: SUCCEEDED'' @ newline
       @ ''- Completed: 2024-01-01T00:16:40'' @ newline
       @ ''- Results: 9 rows'' @ newline"
proof -
  let ?asker = "\<lparr>uid = ''u-alice'', name = ''ALICE''\<rparr>"
  let ?w2 = "snd (handle_glue_result steady_env (Responds ''9 rows'') notified_event idle_world)"
  have same_user: "str_lower steady_env (name ?asker)
                   = str_lower steady_env (event_username notified_event)"
    by (simp add: sample_events lower_samples steady_lower)
  have envs: "utcnow steady_env n = 1000" "isoformat steady_env = plain_iso"
    "fromisoformat steady_env = plain_parse" "cache_ttl_hours steady_env = 24" for n
    by (simp_all add: steady_env_def twice_refused_def)
  have printed: "isoformat steady_env (utcnow steady_env (clock_reads idle_world)) \<noteq> []"
    by (simp add: envs plain_iso_def)
  have roundtrip: "fromisoformat steady_env (replace_Z (isoformat steady_env
                      (utcnow steady_env (clock_reads idle_world))))
                    = Some (utcnow steady_env (clock_reads idle_world))"
    by (simp add: envs plain_iso_def plain_parse_def replace_Z_def)
  have later: "completed_jobs_cache ?w2
                = completed_jobs_cache (snd (handle_glue_result steady_env (Responds ''9 rows'')
                                               notified_event idle_world))"
    by simp
  have fresh: "\<not> utcnow steady_env (clock_reads ?w2)
                  - utcnow steady_env (clock_reads idle_world)
                  > real_of_int (cache_ttl_hours steady_env * 3600)"
    by (simp add: envs)
  from completion_event_is_cached [OF sample_events(1) sample_events(2) same_user printed
      roundtrip later fresh sample_status_query]
  show ?thesis
    by (simp add: envs plain_iso_def get_or_def notified_event_def silent_event_def
        sample_glue_fields_def)
qed

text \<open>
  The unconditional reading of the specification (every job-completion event the
  service processes is cached) fails for an event without a websocket URL: the service
  answers 200 with the response, the cache has no entry for the user, and a read of the
  cache answers the empty string.
\<close>

theorem completion_event_without_url_not_cached:
  "fst (handle_glue_result steady_env (Responds ''9 rows'') silent_event idle_world)
     = (200, ''9 rows'')
   \<and> completed_jobs_cache
       (snd (handle_glue_result steady_env (Responds ''9 rows'') silent_event idle_world))
       ''alice'' = None
   \<and> fst (get_cached_job_results steady_env ''Alice''
            (snd (handle_glue_result steady_env (Responds ''9 rows'') silent_event
                    idle_world))) = []"
proof -
  have run: "handle_glue_result steady_env (Responds ''9 rows'') silent_event idle_world
        = ((200, ''9 rows''),
           log_effect (AgentCall (agent_input_of (PromptEvent (payload silent_event))))
             idle_world)"
    using sample_events(4)
    by (simp add: handle_glue_result_def prompt_event_without_url Let_def)
  have none: "completed_jobs_cache
       (snd (handle_glue_result steady_env (Responds ''9 rows'') silent_event idle_world))
       ''alice'' = None"
    unfolding run by (simp add: log_effect_fields) (simp add: idle_world_def)
  show ?thesis
    using none
    by (simp add: get_cached_job_results_def lower_samples steady_lower) (simp add: run)
qed

end
